theory Spec2Isabelle
  imports Complex_Main "HOL-Library.Word" "HOL-Library.Log_Nat"
begin

section \<open>Order service: data model\<close>

text \<open>
  The repository holds two implementations of the order service. The handler of
  \<^verbatim>\<open>order-service/handler/order.go\<close> (type \<^verbatim>\<open>OrderHandler\<close>) owns a MySQL repository with
  four tables. The service of \<^verbatim>\<open>internal/order/service/order_service.go\<close> (type
  \<^verbatim>\<open>OrderService\<close>) validates requests, consults the status transition table and talks to a
  repository through an interface. Both are embedded below, function by function.

  The enums of \<^verbatim>\<open>api/proto/order/v1/order.proto\<close>.
\<close>

datatype OrderStatus =
  ORDER_STATUS_UNSPECIFIED
  | ORDER_STATUS_PENDING
  | ORDER_STATUS_PROCESSING
  | ORDER_STATUS_COMPLETED
  | ORDER_STATUS_CANCELLED
  | ORDER_STATUS_FAILED

datatype PaymentStatus =
  PAYMENT_STATUS_UNSPECIFIED
  | PAYMENT_STATUS_PENDING
  | PAYMENT_STATUS_COMPLETED
  | PAYMENT_STATUS_FAILED
  | PAYMENT_STATUS_REFUNDED

datatype PaymentMethod =
  PAYMENT_METHOD_UNSPECIFIED
  | PAYMENT_METHOD_CREDIT_CARD
  | PAYMENT_METHOD_DEBIT_CARD
  | PAYMENT_METHOD_BANK_TRANSFER

datatype ShippingStatus =
  SHIPPING_STATUS_UNSPECIFIED
  | SHIPPING_STATUS_PENDING
  | SHIPPING_STATUS_SHIPPED
  | SHIPPING_STATUS_DELIVERED
  | SHIPPING_STATUS_RETURNED

text \<open>
  gRPC status codes, and the error a handler returns: \<^verbatim>\<open>status.Error(code, msg)\<close>, or the
  panic of a nil pointer dereference.
\<close>

datatype Code =
  InvalidArgument
  | NotFound
  | Internal
  | Unavailable
  | DeadlineExceeded
  | Unknown

datatype rpc_error =
  StatusErr Code string
  | NilPointerPanic

text \<open>
  Errors of the database layer: \<^verbatim>\<open>sql.ErrNoRows\<close>, any other failure reported by the
  driver (connection lost, constraint violated, context cancelled), and a use of a
  transaction that is already closed.
\<close>

datatype sqlerr =
  ErrNoRows
  | DriverError string
  | ErrTxDone

text \<open>
  Timestamps are ticks of a clock. The type \<open>'f\<close> stands for Go's \<^verbatim>\<open>float64\<close>: the
  embedding uses its zero, addition, multiplication and order only through the type
  classes \<open>zero\<close>, \<open>plus\<close>, \<open>times\<close> and \<open>ord\<close>, which carry no laws, and takes the
  conversion \<^verbatim>\<open>float64(int32)\<close> as a parameter. A quantity is an \<^verbatim>\<open>int32\<close>, read as
  the integer it denotes: the code compares and converts it and does no arithmetic on it.
\<close>

type_synonym Time = int

record 'f OrderItem =
  ProductID :: string
  Quantity :: int
  UnitPrice :: 'f
  ProductName :: string

record PaymentInfo =
  PaymentID :: string
  pay_Status :: PaymentStatus
  Method :: PaymentMethod
  ProcessedAt :: Time

record ShippingInfo =
  AddressLine1 :: string
  AddressLine2 :: string
  City :: string
  State :: string
  Country :: string
  PostalCode :: string
  ship_Status :: ShippingStatus

record 'f Order =
  ID :: string
  UserID :: string
  Items :: "'f OrderItem list"
  TotalAmount :: 'f
  Status :: OrderStatus
  PaymentInfo :: PaymentInfo
  ShippingInfo :: ShippingInfo
  CreatedAt :: Time
  UpdatedAt :: Time

record User =
  user_id :: string
  email :: string
  username :: string

section \<open>Status transition table\<close>

text \<open>
  \<^verbatim>\<open>isValidStatusTransition\<close> of the service: a map literal from a status to the list of
  its legal targets, a lookup, and a linear search of the list.
\<close>

definition transitions :: "(OrderStatus \<times> OrderStatus list) list" where
  "transitions =
     [(ORDER_STATUS_PENDING, [ORDER_STATUS_PROCESSING, ORDER_STATUS_CANCELLED]),
      (ORDER_STATUS_PROCESSING, [ORDER_STATUS_COMPLETED, ORDER_STATUS_FAILED])]"

fun search_status :: "OrderStatus \<Rightarrow> OrderStatus list \<Rightarrow> bool" where
  "search_status new [] = False"
| "search_status new (validStatus # rest) =
     (if new = validStatus then True else search_status new rest)"

definition isValidStatusTransition :: "OrderStatus \<Rightarrow> OrderStatus \<Rightarrow> bool" where
  "isValidStatusTransition current new =
     (case map_of transitions current of
        None \<Rightarrow> False
      | Some validTransitions \<Rightarrow> search_status new validTransitions)"

section \<open>The MySQL store of the handler\<close>

text \<open>
  The four tables written by \<^verbatim>\<open>orderRepository.CreateOrder\<close>, with the columns of its
  INSERT statements. A table is the list of its rows in insertion order. The columns an
  item, a payment and a shipping row share with the Go structs are kept as that struct.
\<close>

record 'f order_row =
  or_id :: string
  or_user_id :: string
  or_status :: OrderStatus
  or_total_amount :: 'f
  or_created_at :: Time
  or_updated_at :: Time

record 'f item_row =
  ir_id :: string
  ir_order_id :: string
  ir_item :: "'f OrderItem"

record payment_row =
  pr_id :: string
  pr_order_id :: string
  pr_info :: PaymentInfo

record shipping_row =
  sr_id :: string
  sr_order_id :: string
  sr_info :: ShippingInfo

record 'f tables =
  orders :: "'f order_row list"
  order_items :: "'f item_row list"
  payment_info :: "payment_row list"
  shipping_info :: "shipping_row list"

text \<open>
  The database as one connection sees it, for tables of type \<open>'t\<close>: the committed
  tables, which every read outside a transaction sees, and the working copy of the
  transaction that is open, if one is.
  Every round trip to the database can fail; the outcome of each is an input, the fault
  (\<open>Some message\<close>) the driver reports for it or \<open>None\<close>.
\<close>

record 't database =
  committed :: 't
  open_tx :: "'t option"

definition BeginTx :: "string option \<Rightarrow> 't database \<Rightarrow> sqlerr + 't database" where
  "BeginTx fault db =
     (case fault of
        Some m \<Rightarrow> Inl (DriverError m)
      | None \<Rightarrow> Inr (db\<lparr>open_tx := Some (committed db)\<rparr>))"

definition tx_ExecContext ::
  "string option \<Rightarrow> ('t \<Rightarrow> 't) \<Rightarrow> 't database \<Rightarrow> sqlerr + 't database" where
  "tx_ExecContext fault stmt db =
     (case fault of
        Some m \<Rightarrow> Inl (DriverError m)
      | None \<Rightarrow>
          (case open_tx db of
             None \<Rightarrow> Inl ErrTxDone
           | Some w \<Rightarrow> Inr (db\<lparr>open_tx := Some (stmt w)\<rparr>)))"

definition tx_Rollback :: "'t database \<Rightarrow> 't database" where
  "tx_Rollback db = db\<lparr>open_tx := None\<rparr>"

definition tx_Commit :: "string option \<Rightarrow> 't database \<Rightarrow> sqlerr option \<times> 't database" where
  "tx_Commit fault db =
     (case fault of
        Some m \<Rightarrow> (Some (DriverError m), db\<lparr>open_tx := None\<rparr>)
      | None \<Rightarrow>
          (case open_tx db of
             None \<Rightarrow> (Some ErrTxDone, db)
           | Some w \<Rightarrow> (None, \<lparr>committed = w, open_tx = None\<rparr>)))"

definition QueryRow :: "string option \<Rightarrow> 'r list \<Rightarrow> sqlerr + 'r" where
  "QueryRow fault rows =
     (case fault of
        Some m \<Rightarrow> Inl (DriverError m)
      | None \<Rightarrow> (case rows of [] \<Rightarrow> Inl ErrNoRows | r # _ \<Rightarrow> Inr r))"

definition Query :: "string option \<Rightarrow> 'r list \<Rightarrow> sqlerr + 'r list" where
  "Query fault rows =
     (case fault of Some m \<Rightarrow> Inl (DriverError m) | None \<Rightarrow> Inr rows)"

subsection \<open>orderRepository.CreateOrder\<close>

definition insert_order :: "'f order_row \<Rightarrow> 'f tables \<Rightarrow> 'f tables" where
  "insert_order r t = t\<lparr>orders := orders t @ [r]\<rparr>"

definition insert_item :: "'f item_row \<Rightarrow> 'f tables \<Rightarrow> 'f tables" where
  "insert_item r t = t\<lparr>order_items := order_items t @ [r]\<rparr>"

definition insert_payment :: "payment_row \<Rightarrow> 'f tables \<Rightarrow> 'f tables" where
  "insert_payment r t = t\<lparr>payment_info := payment_info t @ [r]\<rparr>"

definition insert_shipping :: "shipping_row \<Rightarrow> 'f tables \<Rightarrow> 'f tables" where
  "insert_shipping r t = t\<lparr>shipping_info := shipping_info t @ [r]\<rparr>"

text \<open>
  The rows one order turns into. \<open>uuid k\<close> is the \<open>k\<close>-th identifier \<^verbatim>\<open>uuid.New()\<close>
  hands out during the call and \<open>now\<close> the database's \<^verbatim>\<open>NOW()\<close>.
\<close>

definition header_row :: "Time \<Rightarrow> 'f Order \<Rightarrow> 'f order_row" where
  "header_row now order =
     \<lparr>or_id = ID order, or_user_id = UserID order, or_status = Status order,
      or_total_amount = TotalAmount order, or_created_at = now, or_updated_at = now\<rparr>"

definition item_row_of :: "(nat \<Rightarrow> string) \<Rightarrow> string \<Rightarrow> nat \<Rightarrow> 'f OrderItem \<Rightarrow> 'f item_row" where
  "item_row_of uuid orderID k item = \<lparr>ir_id = uuid k, ir_order_id = orderID, ir_item = item\<rparr>"

definition payment_row_of :: "(nat \<Rightarrow> string) \<Rightarrow> Time \<Rightarrow> 'f Order \<Rightarrow> payment_row" where
  "payment_row_of uuid now order =
     \<lparr>pr_id = uuid (length (Items order)), pr_order_id = ID order,
      pr_info = (PaymentInfo order)\<lparr>ProcessedAt := now\<rparr>\<rparr>"

definition shipping_row_of :: "(nat \<Rightarrow> string) \<Rightarrow> 'f Order \<Rightarrow> shipping_row" where
  "shipping_row_of uuid order =
     \<lparr>sr_id = uuid (Suc (length (Items order))), sr_order_id = ID order,
      sr_info = ShippingInfo order\<rparr>"

text \<open>
  The loop over the items: statement \<open>k + 2\<close> of the call writes item \<open>k\<close>; a failure
  rolls the transaction back and returns.
\<close>

fun insert_items ::
  "(nat \<Rightarrow> string option) \<Rightarrow> (nat \<Rightarrow> string) \<Rightarrow> string \<Rightarrow> nat \<Rightarrow> 'f OrderItem list \<Rightarrow>
     'f tables database \<Rightarrow> sqlerr option \<times> 'f tables database" where
  "insert_items faults uuid orderID k [] db = (None, db)"
| "insert_items faults uuid orderID k (item # rest) db =
     (case tx_ExecContext (faults (k + 2)) (insert_item (item_row_of uuid orderID k item)) db of
        Inl err \<Rightarrow> (Some err, tx_Rollback db)
      | Inr db' \<Rightarrow> insert_items faults uuid orderID (Suc k) rest db')"

definition orderRepository_CreateOrder ::
  "(nat \<Rightarrow> string option) \<Rightarrow> (nat \<Rightarrow> string) \<Rightarrow> Time \<Rightarrow> 'f Order \<Rightarrow> 'f tables database \<Rightarrow>
     sqlerr option \<times> 'f tables database" where
  "orderRepository_CreateOrder faults uuid now order db =
     (let n = length (Items order) in
      case BeginTx (faults 0) db of
        Inl err \<Rightarrow> (Some err, db)
      | Inr db1 \<Rightarrow>
     (case tx_ExecContext (faults 1) (insert_order (header_row now order)) db1 of
        Inl err \<Rightarrow> (Some err, tx_Rollback db1)
      | Inr db2 \<Rightarrow>
     (case insert_items faults uuid (ID order) 0 (Items order) db2 of
        (Some err, db') \<Rightarrow> (Some err, db')
      | (None, db3) \<Rightarrow>
     (case tx_ExecContext (faults (n + 2)) (insert_payment (payment_row_of uuid now order)) db3 of
        Inl err \<Rightarrow> (Some err, tx_Rollback db3)
      | Inr db4 \<Rightarrow>
     (case tx_ExecContext (faults (n + 3)) (insert_shipping (shipping_row_of uuid order)) db4 of
        Inl err \<Rightarrow> (Some err, tx_Rollback db4)
      | Inr db5 \<Rightarrow> tx_Commit (faults (n + 4)) db5)))))"

subsection \<open>orderRepository.GetOrder\<close>

text \<open>
  Four reads outside any transaction: the header row, the item rows, the payment row and
  the shipping row. \<^verbatim>\<open>QueryRowContext(...).Scan\<close> gives \<^verbatim>\<open>sql.ErrNoRows\<close> when no row
  matches, and each error is returned as it is. Of an item row the four columns that are
  fields of \<^verbatim>\<open>OrderItem\<close> are kept.
\<close>

definition orderRepository_GetOrder ::
  "(nat \<Rightarrow> string option) \<Rightarrow> string \<Rightarrow> 'f tables database \<Rightarrow> sqlerr + 'f Order" where
  "orderRepository_GetOrder faults oid db =
     (let t = committed db in
      case QueryRow (faults 0) (filter (\<lambda>r. or_id r = oid) (orders t)) of
        Inl err \<Rightarrow> Inl err
      | Inr h \<Rightarrow>
     (case Query (faults 1) (filter (\<lambda>r. ir_order_id r = oid) (order_items t)) of
        Inl err \<Rightarrow> Inl err
      | Inr irows \<Rightarrow>
     (case QueryRow (faults 2) (filter (\<lambda>r. pr_order_id r = oid) (payment_info t)) of
        Inl err \<Rightarrow> Inl err
      | Inr p \<Rightarrow>
     (case QueryRow (faults 3) (filter (\<lambda>r. sr_order_id r = oid) (shipping_info t)) of
        Inl err \<Rightarrow> Inl err
      | Inr s \<Rightarrow>
          Inr \<lparr>ID = or_id h, UserID = or_user_id h, Items = map ir_item irows,
               TotalAmount = or_total_amount h, Status = or_status h,
               PaymentInfo = pr_info p, ShippingInfo = sr_info s,
               CreatedAt = or_created_at h, UpdatedAt = or_updated_at h\<rparr>))))"

subsection \<open>orderRepository.UpdateOrderStatus\<close>

text \<open>
  One UPDATE outside any transaction, so it is committed at once. MySQL counts as affected
  the rows the statement changed (the connection string of \<^verbatim>\<open>NewOrderRepository\<close> does not
  ask for the matched rows instead).
\<close>

definition set_status :: "string \<Rightarrow> OrderStatus \<Rightarrow> Time \<Rightarrow> 'f order_row \<Rightarrow> 'f order_row" where
  "set_status oid status now r =
     (if or_id r = oid then r\<lparr>or_status := status, or_updated_at := now\<rparr> else r)"

definition RowsAffected :: "string \<Rightarrow> OrderStatus \<Rightarrow> Time \<Rightarrow> 'f order_row list \<Rightarrow> nat" where
  "RowsAffected oid status now rows =
     length (filter (\<lambda>r. or_id r = oid \<and> set_status oid status now r \<noteq> r) rows)"

definition orderRepository_UpdateOrderStatus ::
  "string option \<Rightarrow> Time \<Rightarrow> string \<Rightarrow> OrderStatus \<Rightarrow> 'f tables database \<Rightarrow>
     sqlerr option \<times> 'f tables database" where
  "orderRepository_UpdateOrderStatus fault now oid status db =
     (case fault of
        Some m \<Rightarrow> (Some (DriverError m), db)
      | None \<Rightarrow>
          (let t = committed db;
               db' = db\<lparr>committed := t\<lparr>orders := map (set_status oid status now) (orders t)\<rparr>\<rparr>
           in if RowsAffected oid status now (orders t) = 0 then (Some ErrNoRows, db')
              else (None, db')))"

text \<open>What a successful \<^verbatim>\<open>CreateOrder\<close> adds to the four tables.\<close>

definition rows_added :: "(nat \<Rightarrow> string) \<Rightarrow> Time \<Rightarrow> 'f Order \<Rightarrow> 'f tables \<Rightarrow> 'f tables" where
  "rows_added uuid now order t =
     \<lparr>orders = orders t @ [header_row now order],
      order_items = order_items t @
        map (\<lambda>k. item_row_of uuid (ID order) k (Items order ! k)) [0..<length (Items order)],
      payment_info = payment_info t @ [payment_row_of uuid now order],
      shipping_info = shipping_info t @ [shipping_row_of uuid order]\<rparr>"

subsection \<open>orderRepository.ListOrders\<close>

text \<open>
  The page query: the user's orders of one status, newest first, \<^verbatim>\<open>LIMIT\<close> and
  \<^verbatim>\<open>OFFSET\<close> applied. Rows created at the same instant stay in table order, a choice SQL
  leaves to the engine. The engine rejects a negative limit or offset. The offset is
  computed in \<^verbatim>\<open>int32\<close>, \<^verbatim>\<open>pageSize*int32(len(pageToken))\<close>, and wraps.
\<close>

definition page_offset :: "int \<Rightarrow> string \<Rightarrow> int" where
  "page_offset pageSize pageToken =
     sint (word_of_int pageSize * word_of_nat (length pageToken) :: 32 word)"

definition select_page ::
  "string \<Rightarrow> OrderStatus \<Rightarrow> int \<Rightarrow> int \<Rightarrow> 'f order_row list \<Rightarrow> sqlerr + 'f order_row list" where
  "select_page userID status limit offset rows =
     (if limit < 0 \<or> offset < 0 then Inl (DriverError ''invalid LIMIT or OFFSET'')
      else Inr (take (nat limit) (drop (nat offset)
             (sort_key (\<lambda>r. - or_created_at r)
                (filter (\<lambda>r. or_user_id r = userID \<and> or_status r = status) rows)))))"

text \<open>The zero values the rows are scanned into.\<close>

definition zero_PaymentInfo :: PaymentInfo where
  "zero_PaymentInfo =
     \<lparr>PaymentID = [], pay_Status = PAYMENT_STATUS_UNSPECIFIED,
      Method = PAYMENT_METHOD_UNSPECIFIED, ProcessedAt = 0\<rparr>"

definition zero_ShippingInfo :: ShippingInfo where
  "zero_ShippingInfo =
     \<lparr>AddressLine1 = [], AddressLine2 = [], City = [], State = [], Country = [],
      PostalCode = [], ship_Status = SHIPPING_STATUS_UNSPECIFIED\<rparr>"

definition scan_header :: "'f order_row \<Rightarrow> 'f Order" where
  "scan_header h =
     \<lparr>ID = or_id h, UserID = or_user_id h, Items = [], TotalAmount = or_total_amount h,
      Status = or_status h, PaymentInfo = zero_PaymentInfo, ShippingInfo = zero_ShippingInfo,
      CreatedAt = or_created_at h, UpdatedAt = or_updated_at h\<rparr>"

text \<open>The three loops over the page: round trip \<open>k\<close> serves the first order left.\<close>

fun load_items ::
  "(nat \<Rightarrow> string option) \<Rightarrow> nat \<Rightarrow> 'f tables \<Rightarrow> 'f Order list \<Rightarrow> sqlerr + 'f Order list" where
  "load_items faults k t [] = Inr []"
| "load_items faults k t (order # rest) =
     (case Query (faults k) (filter (\<lambda>r. ir_order_id r = ID order) (order_items t)) of
        Inl err \<Rightarrow> Inl err
      | Inr irows \<Rightarrow>
          (case load_items faults (Suc k) t rest of
             Inl err \<Rightarrow> Inl err
           | Inr rest' \<Rightarrow> Inr (order\<lparr>Items := Items order @ map ir_item irows\<rparr> # rest')))"

fun load_payment ::
  "(nat \<Rightarrow> string option) \<Rightarrow> nat \<Rightarrow> 'f tables \<Rightarrow> 'f Order list \<Rightarrow> sqlerr + 'f Order list" where
  "load_payment faults k t [] = Inr []"
| "load_payment faults k t (order # rest) =
     (case QueryRow (faults k) (filter (\<lambda>r. pr_order_id r = ID order) (payment_info t)) of
        Inl err \<Rightarrow> Inl err
      | Inr p \<Rightarrow>
          (case load_payment faults (Suc k) t rest of
             Inl err \<Rightarrow> Inl err
           | Inr rest' \<Rightarrow> Inr (order\<lparr>PaymentInfo := pr_info p\<rparr> # rest')))"

fun load_shipping ::
  "(nat \<Rightarrow> string option) \<Rightarrow> nat \<Rightarrow> 'f tables \<Rightarrow> 'f Order list \<Rightarrow> sqlerr + 'f Order list" where
  "load_shipping faults k t [] = Inr []"
| "load_shipping faults k t (order # rest) =
     (case QueryRow (faults k) (filter (\<lambda>r. sr_order_id r = ID order) (shipping_info t)) of
        Inl err \<Rightarrow> Inl err
      | Inr s \<Rightarrow>
          (case load_shipping faults (Suc k) t rest of
             Inl err \<Rightarrow> Inl err
           | Inr rest' \<Rightarrow> Inr (order\<lparr>ShippingInfo := sr_info s\<rparr> # rest')))"

definition orderRepository_ListOrders ::
  "(nat \<Rightarrow> string option) \<Rightarrow> string \<Rightarrow> OrderStatus \<Rightarrow> int \<Rightarrow> string \<Rightarrow> 'f tables database \<Rightarrow>
     sqlerr + ('f Order list \<times> string)" where
  "orderRepository_ListOrders faults userID status pageSize pageToken db =
     (let t = committed db in
      case (case faults 0 of
              Some m \<Rightarrow> Inl (DriverError m)
            | None \<Rightarrow> select_page userID status pageSize (page_offset pageSize pageToken)
                        (orders t)) of
        Inl err \<Rightarrow> Inl err
      | Inr hs \<Rightarrow>
     (let orders0 = map scan_header hs; n = length orders0 in
      case load_items faults 1 t orders0 of
        Inl err \<Rightarrow> Inl err
      | Inr orders1 \<Rightarrow>
     (case load_payment faults (1 + n) t orders1 of
        Inl err \<Rightarrow> Inl err
      | Inr orders2 \<Rightarrow>
     (case load_shipping faults (1 + 2 * n) t orders2 of
        Inl err \<Rightarrow> Inl err
      | Inr orders3 \<Rightarrow> Inr (orders3, [])))))"

section \<open>The handler\<close>

text \<open>
  The wire messages: \<^verbatim>\<open>orderv1.Order\<close>, whose user, payment and shipping fields are
  pointers, and \<^verbatim>\<open>CreateOrderRequest\<close>.
\<close>

record 'f pbOrder =
  pb_Id :: string
  pb_UserId :: string
  pb_Items :: "'f OrderItem list"
  pb_TotalAmount :: 'f
  pb_Status :: OrderStatus
  pb_User :: "User option"
  pb_CreatedAt :: Time
  pb_UpdatedAt :: Time
  pb_PaymentInfo :: "PaymentInfo option"
  pb_ShippingInfo :: "ShippingInfo option"

record 'f CreateOrderRequest =
  req_UserId :: string
  req_Items :: "'f OrderItem list"
  req_ShippingInfo :: "ShippingInfo option"
  req_PaymentMethod :: PaymentMethod

text \<open>
  What a call depends on besides the request and the database: the user directory
  (\<^verbatim>\<open>userClient.GetUser\<close>, which answers with a user or with a status code and the text
  \<^verbatim>\<open>err.Error()\<close> of the error), the identifiers \<^verbatim>\<open>uuid.New()\<close> hands out, the readings of \<^verbatim>\<open>time.Now()\<close>,
  the database's \<^verbatim>\<open>NOW()\<close> and the faults of the round trips to the database.
  A handler returns its answer, the database it leaves, and the identifiers it asked the
  user directory for, in order.
\<close>

record env =
  env_GetUser :: "string \<Rightarrow> (Code \<times> string) + User"
  env_uuid :: "nat \<Rightarrow> string"
  env_Now :: "nat \<Rightarrow> Time"
  env_NOW :: Time
  env_faults :: "nat \<Rightarrow> string option"

definition copy_item :: "'f OrderItem \<Rightarrow> 'f OrderItem" where
  "copy_item item =
     \<lparr>ProductID = ProductID item, Quantity = Quantity item, UnitPrice = UnitPrice item,
      ProductName = ProductName item\<rparr>"

definition convertToProtoOrder :: "'f Order \<Rightarrow> User option \<Rightarrow> 'f pbOrder" where
  "convertToProtoOrder order user =
     \<lparr>pb_Id = ID order, pb_UserId = UserID order, pb_Items = map copy_item (Items order),
      pb_TotalAmount = TotalAmount order, pb_Status = Status order, pb_User = user,
      pb_CreatedAt = CreatedAt order, pb_UpdatedAt = UpdatedAt order,
      pb_PaymentInfo =
        Some \<lparr>PaymentID = PaymentID (PaymentInfo order),
              pay_Status = pay_Status (PaymentInfo order),
              Method = Method (PaymentInfo order),
              ProcessedAt = ProcessedAt (PaymentInfo order)\<rparr>,
      pb_ShippingInfo =
        Some \<lparr>AddressLine1 = AddressLine1 (ShippingInfo order),
              AddressLine2 = AddressLine2 (ShippingInfo order),
              City = City (ShippingInfo order),
              State = State (ShippingInfo order),
              Country = Country (ShippingInfo order),
              PostalCode = PostalCode (ShippingInfo order),
              ship_Status = SHIPPING_STATUS_UNSPECIFIED\<rparr>\<rparr>"

text \<open>
  The loop of \<^verbatim>\<open>OrderHandler.CreateOrder\<close> that adds up the total:
  \<^verbatim>\<open>totalAmount += item.UnitPrice * float64(item.Quantity)\<close>.
\<close>

fun handler_total :: "(int \<Rightarrow> 'f::{plus,times}) \<Rightarrow> 'f \<Rightarrow> 'f OrderItem list \<Rightarrow> 'f" where
  "handler_total float64 totalAmount [] = totalAmount"
| "handler_total float64 totalAmount (item # rest) =
     handler_total float64 (totalAmount + UnitPrice item * float64 (Quantity item)) rest"

definition new_order :: "(int \<Rightarrow> 'f::{zero,plus,times}) \<Rightarrow> env \<Rightarrow> 'f CreateOrderRequest \<Rightarrow>
    ShippingInfo \<Rightarrow> 'f Order" where
  "new_order float64 env req sh =
     \<lparr>ID = env_uuid env 0, UserID = req_UserId req, Items = map copy_item (req_Items req),
      TotalAmount = handler_total float64 0 (req_Items req),
      Status = ORDER_STATUS_PENDING,
      PaymentInfo =
        \<lparr>PaymentID = env_uuid env 1, pay_Status = PAYMENT_STATUS_PENDING,
         Method = req_PaymentMethod req, ProcessedAt = 0\<rparr>,
      ShippingInfo =
        \<lparr>AddressLine1 = AddressLine1 sh, AddressLine2 = AddressLine2 sh, City = City sh,
         State = State sh, Country = Country sh, PostalCode = PostalCode sh,
         ship_Status = SHIPPING_STATUS_PENDING\<rparr>,
      CreatedAt = env_Now env 0, UpdatedAt = env_Now env 1\<rparr>"

definition OrderHandler_CreateOrder ::
  "(int \<Rightarrow> 'f::{zero,plus,times}) \<Rightarrow> env \<Rightarrow> 'f CreateOrderRequest \<Rightarrow> 'f tables database \<Rightarrow>
     (rpc_error + 'f pbOrder) \<times> 'f tables database \<times> string list" where
  "OrderHandler_CreateOrder float64 env req db =
     (case env_GetUser env (req_UserId req) of
        Inl (code, text) \<Rightarrow>
          (if code = NotFound
           then (Inl (StatusErr InvalidArgument ''user not found''), db, [req_UserId req])
           else (Inl (StatusErr Internal ''failed to verify user''), db, [req_UserId req]))
      | Inr user \<Rightarrow>
     (case req_ShippingInfo req of
        None \<Rightarrow> (Inl NilPointerPanic, db, [req_UserId req])
      | Some sh \<Rightarrow>
     (let order = new_order float64 env req sh in
      case orderRepository_CreateOrder (env_faults env) (\<lambda>k. env_uuid env (k + 2))
             (env_NOW env) order db of
        (Some err, db') \<Rightarrow>
          (Inl (StatusErr Internal ''failed to create order''), db', [req_UserId req])
      | (None, db') \<Rightarrow>
          (Inr (convertToProtoOrder order (Some user)), db', [req_UserId req]))))"

definition OrderHandler_GetOrder ::
  "env \<Rightarrow> string \<Rightarrow> 'f tables database \<Rightarrow> (rpc_error + 'f pbOrder) \<times> string list" where
  "OrderHandler_GetOrder env orderId db =
     (case orderRepository_GetOrder (env_faults env) orderId db of
        Inl err \<Rightarrow>
          (if err = ErrNoRows then (Inl (StatusErr NotFound ''order not found''), [])
           else (Inl (StatusErr Internal ''failed to get order''), []))
      | Inr order \<Rightarrow>
          (case env_GetUser env (UserID order) of
             Inl e \<Rightarrow> (Inl (StatusErr Internal ''failed to get user details''), [UserID order])
           | Inr user \<Rightarrow> (Inr (convertToProtoOrder order (Some user)), [UserID order])))"

text \<open>
  \<^verbatim>\<open>OrderHandler.ListOrders\<close>. The handler holds its repository as the interface
  \<^verbatim>\<open>OrderRepository\<close>; \<open>listOrders\<close> is the method \<^verbatim>\<open>h.repo.ListOrders\<close> it calls.
\<close>

definition OrderHandler_ListOrders_repo ::
  "(string \<Rightarrow> OrderStatus \<Rightarrow> int \<Rightarrow> string \<Rightarrow> sqlerr + ('f Order list \<times> string)) \<Rightarrow> env \<Rightarrow>
     string \<Rightarrow> OrderStatus \<Rightarrow> int \<Rightarrow> string \<Rightarrow>
     (rpc_error + ('f pbOrder list \<times> string)) \<times> string list" where
  "OrderHandler_ListOrders_repo listOrders env userId status pageSize pageToken =
     (case listOrders userId status pageSize pageToken of
        Inl err \<Rightarrow> (Inl (StatusErr Internal ''failed to list orders''), [])
      | Inr (page, nextPageToken) \<Rightarrow>
          (case page of
             [] \<Rightarrow> (Inr (map (\<lambda>order. convertToProtoOrder order None) page, nextPageToken), [])
           | first # others \<Rightarrow>
               (case env_GetUser env (UserID first) of
                  Inl e \<Rightarrow>
                    (Inl (StatusErr Internal ''failed to get user details''), [UserID first])
                | Inr user \<Rightarrow>
                    (Inr (map (\<lambda>order. convertToProtoOrder order (Some user)) page,
                          nextPageToken),
                     [UserID first]))))"

text \<open>The handler as the server wires it, on the MySQL repository.\<close>

definition OrderHandler_ListOrders ::
  "env \<Rightarrow> string \<Rightarrow> OrderStatus \<Rightarrow> int \<Rightarrow> string \<Rightarrow> 'f tables database \<Rightarrow>
     (rpc_error + ('f pbOrder list \<times> string)) \<times> string list" where
  "OrderHandler_ListOrders env userId status pageSize pageToken db =
     OrderHandler_ListOrders_repo
       (\<lambda>u s n t. orderRepository_ListOrders (env_faults env) u s n t db)
       env userId status pageSize pageToken"

text \<open>
  \<^verbatim>\<open>OrderHandler.UpdateOrderStatus\<close>: the order is read (round trips 0 to 3), then the
  status is written (round trip 4), then the user is fetched.
\<close>

definition OrderHandler_UpdateOrderStatus ::
  "env \<Rightarrow> string \<Rightarrow> OrderStatus \<Rightarrow> 'f tables database \<Rightarrow>
     (rpc_error + 'f pbOrder) \<times> 'f tables database \<times> string list" where
  "OrderHandler_UpdateOrderStatus env orderId status db =
     (case orderRepository_GetOrder (env_faults env) orderId db of
        Inl err \<Rightarrow>
          (if err = ErrNoRows then (Inl (StatusErr NotFound ''order not found''), db, [])
           else (Inl (StatusErr Internal ''failed to get order''), db, []))
      | Inr order \<Rightarrow>
     (case orderRepository_UpdateOrderStatus (env_faults env 4) (env_NOW env) orderId status db of
        (Some err, db') \<Rightarrow> (Inl (StatusErr Internal ''failed to update order status''), db', [])
      | (None, db') \<Rightarrow>
     (let order' = order\<lparr>Status := status, UpdatedAt := env_Now env 0\<rparr> in
      case env_GetUser env (UserID order') of
        Inl e \<Rightarrow> (Inl (StatusErr Internal ''failed to get user details''), db', [UserID order'])
      | Inr user \<Rightarrow> (Inr (convertToProtoOrder order' (Some user)), db', [UserID order']))))"

section \<open>The service\<close>

text \<open>
  \<^verbatim>\<open>validateCreateOrderRequest\<close>: the user identifier, the number of items, then each
  item in order, its quantity before its price.
\<close>

fun validate_items :: "'f::{zero,ord} OrderItem list \<Rightarrow> rpc_error option" where
  "validate_items [] = None"
| "validate_items (item # rest) =
     (if Quantity item \<le> 0
      then Some (StatusErr InvalidArgument ''item quantity must be positive'')
      else if UnitPrice item \<le> 0
      then Some (StatusErr InvalidArgument ''item unit price must be positive'')
      else validate_items rest)"

definition validateCreateOrderRequest ::
  "'f::{zero,ord} CreateOrderRequest \<Rightarrow> rpc_error option" where
  "validateCreateOrderRequest req =
     (if req_UserId req = [] then Some (StatusErr InvalidArgument ''user_id is required'')
      else if length (req_Items req) = 0
      then Some (StatusErr InvalidArgument ''order must contain at least one item'')
      else validate_items (req_Items req))"

text \<open>
  The second task of \<^verbatim>\<open>OrderService.CreateOrder\<close>:
  \<^verbatim>\<open>sum += float64(item.Quantity) * item.UnitPrice\<close>, with \<open>acc\<close> for the variable
  \<^verbatim>\<open>sum\<close>.
\<close>

fun service_total :: "(int \<Rightarrow> 'f::{plus,times}) \<Rightarrow> 'f \<Rightarrow> 'f OrderItem list \<Rightarrow> 'f" where
  "service_total float64 acc [] = acc"
| "service_total float64 acc (item # rest) =
     service_total float64 (acc + float64 (Quantity item) * UnitPrice item) rest"

text \<open>
  The service reaches its store through the interface \<^verbatim>\<open>repository.OrderRepository\<close>,
  whose declaration is not among the sources. The answers of the repository are
  parameters, and the service returns, next to its answer, the calls it made to the user
  directory and to the repository, in order. \<^verbatim>\<open>CreateOrder\<close> is called with the context
  of the task group, which \<^verbatim>\<open>g.Wait()\<close> has cancelled by then; the call records it.
\<close>

record 'f OrderRepository =
  repo_CreateOrder :: "bool \<Rightarrow> 'f pbOrder \<Rightarrow> string option"
  repo_GetOrder :: "string \<Rightarrow> string + 'f pbOrder option"
  repo_UpdateOrder :: "'f pbOrder \<Rightarrow> string option"

datatype 'f call =
  Call_GetUser string
  | Call_CreateOrder bool "'f pbOrder"
  | Call_GetOrder string
  | Call_UpdateOrder "'f pbOrder"

definition service_order ::
  "(int \<Rightarrow> 'f::{zero,plus,times}) \<Rightarrow> env \<Rightarrow> 'f CreateOrderRequest \<Rightarrow> User \<Rightarrow> 'f pbOrder" where
  "service_order float64 env req user =
     \<lparr>pb_Id = env_uuid env 0, pb_UserId = req_UserId req, pb_Items = req_Items req,
      pb_TotalAmount = service_total float64 0 (req_Items req),
      pb_Status = ORDER_STATUS_PENDING, pb_User = Some user,
      pb_CreatedAt = env_Now env 0, pb_UpdatedAt = env_Now env 1,
      pb_PaymentInfo =
        Some (zero_PaymentInfo\<lparr>pay_Status := PAYMENT_STATUS_PENDING,
                               Method := req_PaymentMethod req\<rparr>),
      pb_ShippingInfo = req_ShippingInfo req\<rparr>"

definition OrderService_CreateOrder ::
  "(int \<Rightarrow> 'f::{zero,plus,times,ord}) \<Rightarrow> env \<Rightarrow> 'f OrderRepository \<Rightarrow> 'f CreateOrderRequest \<Rightarrow>
     (rpc_error + 'f pbOrder) \<times> 'f call list" where
  "OrderService_CreateOrder float64 env repo req =
     (case validateCreateOrderRequest req of
        Some err \<Rightarrow> (Inl err, [])
      | None \<Rightarrow>
     (case env_GetUser env (req_UserId req) of
        Inl (code, text) \<Rightarrow>
          (Inl (StatusErr Internal (''failed to get user details: '' @ text)),
           [Call_GetUser (req_UserId req)])
      | Inr user \<Rightarrow>
     (let order = service_order float64 env req user in
      case repo_CreateOrder repo True order of
        Some err \<Rightarrow>
          (Inl (StatusErr Internal ''failed to create order''),
           [Call_GetUser (req_UserId req), Call_CreateOrder True order])
      | None \<Rightarrow> (Inr order, [Call_GetUser (req_UserId req), Call_CreateOrder True order]))))"

text \<open>
  \<^verbatim>\<open>OrderService.UpdateOrderStatus\<close>. A repository that answers \<^verbatim>\<open>(nil, nil)\<close> for an
  order it does not have, as the PostgreSQL one does, makes \<^verbatim>\<open>order.Status\<close> a nil
  pointer dereference.
\<close>

definition OrderService_UpdateOrderStatus ::
  "env \<Rightarrow> 'f OrderRepository \<Rightarrow> string \<Rightarrow> OrderStatus \<Rightarrow>
     (rpc_error + 'f pbOrder) \<times> 'f call list" where
  "OrderService_UpdateOrderStatus env repo orderId status =
     (case repo_GetOrder repo orderId of
        Inl err \<Rightarrow> (Inl (StatusErr Internal ''failed to get order''), [Call_GetOrder orderId])
      | Inr None \<Rightarrow> (Inl NilPointerPanic, [Call_GetOrder orderId])
      | Inr (Some order) \<Rightarrow>
          (if \<not> isValidStatusTransition (pb_Status order) status
           then (Inl (StatusErr InvalidArgument ''invalid status transition''),
                 [Call_GetOrder orderId])
           else
             (let order' = order\<lparr>pb_Status := status, pb_UpdatedAt := env_Now env 0\<rparr> in
              case repo_UpdateOrder repo order' of
                Some err \<Rightarrow>
                  (Inl (StatusErr Internal ''failed to update order status''),
                   [Call_GetOrder orderId, Call_UpdateOrder order'])
              | None \<Rightarrow> (Inr order', [Call_GetOrder orderId, Call_UpdateOrder order']))))"

section \<open>The PostgreSQL repository\<close>

text \<open>
  \<^verbatim>\<open>OrderRepository.CreateOrder\<close> of \<^verbatim>\<open>internal/order/repository/postgres\<close>: two tables,
  the payment and the shipping record being JSON columns of the header row. What
  \<^verbatim>\<open>json.Marshal\<close> returns, the bytes or an error, is a parameter. The rollback is
  deferred: it runs when the function returns, whatever it returns, and does nothing once
  the transaction is closed.
\<close>

record 'f pg_order_row =
  pg_id :: string
  pg_user_id :: string
  pg_total_amount :: 'f
  pg_status :: OrderStatus
  pg_payment_info :: string
  pg_shipping_info :: string
  pg_created_at :: Time
  pg_updated_at :: Time

record 'f pg_item_row =
  pgi_order_id :: string
  pgi_item :: "'f OrderItem"

record 'f pg_tables =
  pg_orders :: "'f pg_order_row list"
  pg_order_items :: "'f pg_item_row list"

record json =
  Marshal_PaymentInfo :: "PaymentInfo option \<Rightarrow> string + string"
  Marshal_ShippingInfo :: "ShippingInfo option \<Rightarrow> string + string"

datatype pg_error =
  Errorf_sql string sqlerr
  | Errorf_json string string

definition pg_insert_order :: "'f pg_order_row \<Rightarrow> 'f pg_tables \<Rightarrow> 'f pg_tables" where
  "pg_insert_order r t = t\<lparr>pg_orders := pg_orders t @ [r]\<rparr>"

definition pg_insert_item :: "'f pg_item_row \<Rightarrow> 'f pg_tables \<Rightarrow> 'f pg_tables" where
  "pg_insert_item r t = t\<lparr>pg_order_items := pg_order_items t @ [r]\<rparr>"

definition pg_header_row :: "(nat \<Rightarrow> Time) \<Rightarrow> string \<Rightarrow> string \<Rightarrow> 'f pbOrder \<Rightarrow> 'f pg_order_row" where
  "pg_header_row clock paymentInfoJSON shippingInfoJSON order =
     \<lparr>pg_id = pb_Id order, pg_user_id = pb_UserId order,
      pg_total_amount = pb_TotalAmount order, pg_status = pb_Status order,
      pg_payment_info = paymentInfoJSON, pg_shipping_info = shippingInfoJSON,
      pg_created_at = clock 0, pg_updated_at = clock 1\<rparr>"

fun pg_insert_items ::
  "(nat \<Rightarrow> string option) \<Rightarrow> string \<Rightarrow> nat \<Rightarrow> 'f OrderItem list \<Rightarrow> 'f pg_tables database \<Rightarrow>
     pg_error option \<times> 'f pg_tables database" where
  "pg_insert_items faults orderID k [] db = (None, db)"
| "pg_insert_items faults orderID k (item # rest) db =
     (case tx_ExecContext (faults (k + 2))
             (pg_insert_item \<lparr>pgi_order_id = orderID, pgi_item = item\<rparr>) db of
        Inl err \<Rightarrow> (Some (Errorf_sql ''failed to create order item'' err), db)
      | Inr db' \<Rightarrow> pg_insert_items faults orderID (Suc k) rest db')"

definition postgres_CreateOrder_body ::
  "(nat \<Rightarrow> string option) \<Rightarrow> json \<Rightarrow> (nat \<Rightarrow> Time) \<Rightarrow> 'f pbOrder \<Rightarrow> 'f pg_tables database \<Rightarrow>
     pg_error option \<times> 'f pg_tables database" where
  "postgres_CreateOrder_body faults json clock order db1 =
     (case Marshal_PaymentInfo json (pb_PaymentInfo order) of
        Inl m \<Rightarrow> (Some (Errorf_json ''failed to marshal payment info'' m), db1)
      | Inr paymentInfoJSON \<Rightarrow>
     (case Marshal_ShippingInfo json (pb_ShippingInfo order) of
        Inl m \<Rightarrow> (Some (Errorf_json ''failed to marshal shipping info'' m), db1)
      | Inr shippingInfoJSON \<Rightarrow>
     (case tx_ExecContext (faults 1)
             (pg_insert_order (pg_header_row clock paymentInfoJSON shippingInfoJSON order)) db1 of
        Inl err \<Rightarrow> (Some (Errorf_sql ''failed to create order'' err), db1)
      | Inr db2 \<Rightarrow>
     (case pg_insert_items faults (pb_Id order) 0 (pb_Items order) db2 of
        (Some err, db') \<Rightarrow> (Some err, db')
      | (None, db3) \<Rightarrow>
     (case tx_Commit (faults (length (pb_Items order) + 2)) db3 of
        (Some err, db') \<Rightarrow> (Some (Errorf_sql ''failed to commit transaction'' err), db')
      | (None, db') \<Rightarrow> (None, db'))))))"

definition postgres_CreateOrder ::
  "(nat \<Rightarrow> string option) \<Rightarrow> json \<Rightarrow> (nat \<Rightarrow> Time) \<Rightarrow> 'f pbOrder \<Rightarrow> 'f pg_tables database \<Rightarrow>
     pg_error option \<times> 'f pg_tables database" where
  "postgres_CreateOrder faults json clock order db =
     (case BeginTx (faults 0) db of
        Inl err \<Rightarrow> (Some (Errorf_sql ''failed to begin transaction'' err), db)
      | Inr db1 \<Rightarrow>
          (case postgres_CreateOrder_body faults json clock order db1 of
             (err, db') \<Rightarrow> (err, tx_Rollback db')))"

text \<open>What a successful call adds to the two tables.\<close>

definition pg_rows_added ::
  "(nat \<Rightarrow> Time) \<Rightarrow> string \<Rightarrow> string \<Rightarrow> 'f pbOrder \<Rightarrow> 'f pg_tables \<Rightarrow> 'f pg_tables" where
  "pg_rows_added clock paymentInfoJSON shippingInfoJSON order t =
     \<lparr>pg_orders = pg_orders t @ [pg_header_row clock paymentInfoJSON shippingInfoJSON order],
      pg_order_items = pg_order_items t @
        map (\<lambda>item. \<lparr>pgi_order_id = pb_Id order, pgi_item = item\<rparr>) (pb_Items order)\<rparr>"

section \<open>float64\<close>

text \<open>
  Go's \<^verbatim>\<open>float64\<close> is the binary64 format of IEEE 754, every result rounded to the
  nearest value of the format, ties to the even significand. \<open>Finite x\<close> is the finite
  float64 of value \<open>x\<close>; the sign of a zero is not kept. \<open>round64\<close> rounds a rational:
  the exponent is that of the value and not below \<open>-1074\<close>, the significand is rounded to
  an integer of at most 53 bits, and a result of \<open>2 ^ 1024\<close> or more is an infinity. Each
  operation is rounded on its own: the multiplication and the addition of a loop are not
  fused into one operation.
\<close>

datatype float64 = Finite rat | PosInf | NegInf | NaN

definition pow2 :: "int \<Rightarrow> rat" where
  "pow2 e = (if 0 \<le> e then 2 ^ nat e else 1 / 2 ^ nat (- e))"

definition floor_log2 :: "rat \<Rightarrow> int" where
  "floor_log2 a =
     (let d = bitlen (fst (quotient_of a)) - bitlen (snd (quotient_of a))
      in if pow2 d \<le> a then d else d - 1)"

definition round_half_even :: "rat \<Rightarrow> int" where
  "round_half_even r =
     (let f = \<lfloor>r\<rfloor>; d = r - of_int f
      in if d < 1 / 2 then f else if 1 / 2 < d then f + 1 else if even f then f else f + 1)"

definition round64 :: "rat \<Rightarrow> float64" where
  "round64 x =
     (if x = 0 then Finite 0
      else
        (let a = \<bar>x\<bar>;
             e = max (floor_log2 a - 52) (- 1074);
             v = of_int (round_half_even (a / pow2 e)) * pow2 e
         in if pow2 1024 \<le> v then (if 0 < x then PosInf else NegInf)
            else Finite (if 0 < x then v else - v)))"

text \<open>
  The operations of the loops. A NaN operand gives NaN, as do the sum of the two
  infinities and the product of an infinity and zero; no comparison with NaN holds.
\<close>

instantiation float64 :: "{zero, plus, times, ord}"
begin

definition zero_float64 :: float64 where
  "zero_float64 = Finite 0"

fun plus_float64 :: "float64 \<Rightarrow> float64 \<Rightarrow> float64" where
  "plus_float64 NaN y = NaN"
| "plus_float64 x NaN = NaN"
| "plus_float64 PosInf NegInf = NaN"
| "plus_float64 NegInf PosInf = NaN"
| "plus_float64 PosInf y = PosInf"
| "plus_float64 x PosInf = PosInf"
| "plus_float64 NegInf y = NegInf"
| "plus_float64 x NegInf = NegInf"
| "plus_float64 (Finite a) (Finite b) = round64 (a + b)"

fun times_float64 :: "float64 \<Rightarrow> float64 \<Rightarrow> float64" where
  "times_float64 NaN y = NaN"
| "times_float64 x NaN = NaN"
| "times_float64 (Finite a) (Finite b) = round64 (a * b)"
| "times_float64 (Finite a) PosInf = (if a = 0 then NaN else if 0 < a then PosInf else NegInf)"
| "times_float64 (Finite a) NegInf = (if a = 0 then NaN else if 0 < a then NegInf else PosInf)"
| "times_float64 PosInf (Finite b) = (if b = 0 then NaN else if 0 < b then PosInf else NegInf)"
| "times_float64 NegInf (Finite b) = (if b = 0 then NaN else if 0 < b then NegInf else PosInf)"
| "times_float64 PosInf PosInf = PosInf"
| "times_float64 NegInf NegInf = PosInf"
| "times_float64 PosInf NegInf = NegInf"
| "times_float64 NegInf PosInf = NegInf"

fun less_eq_float64 :: "float64 \<Rightarrow> float64 \<Rightarrow> bool" where
  "less_eq_float64 NaN y = False"
| "less_eq_float64 x NaN = False"
| "less_eq_float64 (Finite a) (Finite b) = (a \<le> b)"
| "less_eq_float64 NegInf y = True"
| "less_eq_float64 x PosInf = True"
| "less_eq_float64 x y = False"

fun less_float64 :: "float64 \<Rightarrow> float64 \<Rightarrow> bool" where
  "less_float64 NaN y = False"
| "less_float64 x NaN = False"
| "less_float64 (Finite a) (Finite b) = (a < b)"
| "less_float64 PosInf y = False"
| "less_float64 x NegInf = False"
| "less_float64 x y = True"

instance ..

end

text \<open>\<^verbatim>\<open>float64(item.Quantity)\<close>: every \<^verbatim>\<open>int32\<close> is a float64.\<close>

definition float64_of_int32 :: "int \<Rightarrow> float64" where
  "float64_of_int32 i = Finite (of_int i)"

text \<open>
  The total in the words of the specification: the sum over the items of quantity times
  unit price, in exact arithmetic.
\<close>

definition value_of :: "float64 \<Rightarrow> rat" where
  "value_of x = (case x of Finite a \<Rightarrow> a | _ \<Rightarrow> 0)"

definition exact_sum :: "float64 OrderItem list \<Rightarrow> rat" where
  "exact_sum items = (\<Sum>item\<leftarrow>items. of_int (Quantity item) * value_of (UnitPrice item))"

text \<open>
  No rounding on the way: every price is finite, and every product and every partial sum,
  taken from left to right starting at \<open>acc\<close>, is a float64 itself.
\<close>

fun unrounded :: "rat \<Rightarrow> float64 OrderItem list \<Rightarrow> bool" where
  "unrounded acc [] = True"
| "unrounded acc (item # rest) =
     (case UnitPrice item of
        Finite p \<Rightarrow>
          round64 (of_int (Quantity item) * p) = Finite (of_int (Quantity item) * p)
          \<and> round64 (acc + of_int (Quantity item) * p) = Finite (acc + of_int (Quantity item) * p)
          \<and> unrounded (acc + of_int (Quantity item) * p) rest
      | _ \<Rightarrow> False)"

section \<open>Concrete inputs\<close>

text \<open>
  An empty database, an order of three items, a user directory that knows the user
  \<open>U1\<close> only, and schedules of faults: none, or one at a chosen round trip.
\<close>

definition no_faults :: "nat \<Rightarrow> string option" where
  "no_faults k = None"

definition fault_at :: "nat \<Rightarrow> nat \<Rightarrow> string option" where
  "fault_at n k = (if k = n then Some ''connection lost'' else None)"

definition uuids :: "nat \<Rightarrow> string" where
  "uuids k = CHR ''u'' # replicate k CHR ''i''"

definition empty_db :: "real tables database" where
  "empty_db =
     \<lparr>committed = \<lparr>orders = [], order_items = [], payment_info = [], shipping_info = []\<rparr>,
      open_tx = None\<rparr>"

definition sku :: "string \<Rightarrow> int \<Rightarrow> real \<Rightarrow> real OrderItem" where
  "sku p q price = \<lparr>ProductID = p, Quantity = q, UnitPrice = price, ProductName = p\<rparr>"

definition three_items :: "real OrderItem list" where
  "three_items = [sku ''sku-1'' 2 10, sku ''sku-2'' 1 5, sku ''sku-3'' 3 1]"

definition home :: ShippingInfo where
  "home =
     \<lparr>AddressLine1 = ''1 Main St'', AddressLine2 = [], City = ''Lagos'', State = [],
      Country = ''NG'', PostalCode = [], ship_Status = SHIPPING_STATUS_PENDING\<rparr>"

definition card :: PaymentInfo where
  "card =
     \<lparr>PaymentID = ''pay-1'', pay_Status = PAYMENT_STATUS_PENDING,
      Method = PAYMENT_METHOD_CREDIT_CARD, ProcessedAt = 0\<rparr>"

definition example_order :: "real Order" where
  "example_order =
     \<lparr>ID = ''o-1'', UserID = ''U1'', Items = three_items, TotalAmount = 28,
      Status = ORDER_STATUS_PENDING, PaymentInfo = card, ShippingInfo = home,
      CreatedAt = 7, UpdatedAt = 7\<rparr>"

definition user_U1 :: User where
  "user_U1 = \<lparr>user_id = ''U1'', email = ''u1@example.com'', username = ''u1''\<rparr>"

definition directory :: "string \<Rightarrow> (Code \<times> string) + User" where
  "directory uid =
     (if uid = ''U1'' then Inr user_U1
      else if uid = ''down''
      then Inl (Unavailable, ''rpc error: code = Unavailable desc = connection refused'')
      else Inl (NotFound, ''rpc error: code = NotFound desc = user not found''))"

definition example_env :: "(nat \<Rightarrow> string option) \<Rightarrow> env" where
  "example_env faults =
     \<lparr>env_GetUser = directory, env_uuid = uuids, env_Now = (\<lambda>k. 100 + int k),
      env_NOW = 100, env_faults = faults\<rparr>"

definition example_request :: "string \<Rightarrow> real OrderItem list \<Rightarrow> real CreateOrderRequest" where
  "example_request uid items =
     \<lparr>req_UserId = uid, req_Items = items, req_ShippingInfo = Some home,
      req_PaymentMethod = PAYMENT_METHOD_CREDIT_CARD\<rparr>"

definition empty_pg_db :: "real pg_tables database" where
  "empty_pg_db = \<lparr>committed = \<lparr>pg_orders = [], pg_order_items = []\<rparr>, open_tx = None\<rparr>"

definition example_json :: json where
  "example_json =
     \<lparr>Marshal_PaymentInfo = (\<lambda>p. Inr ''{payment}''),
      Marshal_ShippingInfo = (\<lambda>s. Inr ''{shipping}'')\<rparr>"

definition example_pb_order :: "real pbOrder" where
  "example_pb_order =
     \<lparr>pb_Id = ''o-1'', pb_UserId = ''U1'', pb_Items = three_items, pb_TotalAmount = 28,
      pb_Status = ORDER_STATUS_PENDING, pb_User = Some user_U1, pb_CreatedAt = 7,
      pb_UpdatedAt = 7, pb_PaymentInfo = Some card, pb_ShippingInfo = Some home\<rparr>"

definition one_order_db :: "real tables database" where
  "one_order_db =
     \<lparr>committed = rows_added uuids 100 example_order (committed empty_db), open_tx = None\<rparr>"

text \<open>A header row whose payment and shipping rows are missing.\<close>

definition header_only_db :: "real tables database" where
  "header_only_db =
     \<lparr>committed = \<lparr>orders = [header_row 100 example_order], order_items = [],
                   payment_info = [], shipping_info = []\<rparr>,
      open_tx = None\<rparr>"

text \<open>Three orders of the user \<open>U1\<close>, created at the instants 100, 200 and 300.\<close>

definition order_no :: "string \<Rightarrow> real Order" where
  "order_no oid = example_order\<lparr>ID := oid\<rparr>"

definition three_orders_db :: "real tables database" where
  "three_orders_db =
     \<lparr>committed =
        rows_added uuids 300 (order_no ''o-3'')
          (rows_added uuids 200 (order_no ''o-2'')
             (rows_added uuids 100 (order_no ''o-1'') (committed empty_db))),
      open_tx = None\<rparr>"

text \<open>
  A repository behind the service's interface that holds the order \<open>o-1\<close> and accepts
  every write, as a test double would.
\<close>

definition mock_repo :: "real OrderRepository" where
  "mock_repo =
     \<lparr>repo_CreateOrder = (\<lambda>cancelled order. None),
      repo_GetOrder = (\<lambda>oid. if oid = ''o-1'' then Inr (Some example_pb_order) else Inr None),
      repo_UpdateOrder = (\<lambda>order. None)\<rparr>"

text \<open>The order \<open>o-1\<close> in the terminal state completed.\<close>

definition completed_db :: "real tables database" where
  "completed_db =
     \<lparr>committed = rows_added uuids 100 (example_order\<lparr>Status := ORDER_STATUS_COMPLETED\<rparr>)
                   (committed empty_db),
      open_tx = None\<rparr>"

text \<open>
  Inputs over float64: a request, an empty database, a repository behind the service's
  interface that accepts every write, two prices whose sum is not a float64, and a price
  of a tenth (the float64 nearest to it) whose triple is not a float64.
\<close>

definition fsku :: "string \<Rightarrow> int \<Rightarrow> float64 \<Rightarrow> float64 OrderItem" where
  "fsku p q price = \<lparr>ProductID = p, Quantity = q, UnitPrice = price, ProductName = p\<rparr>"

definition float_request :: "string \<Rightarrow> float64 OrderItem list \<Rightarrow> float64 CreateOrderRequest" where
  "float_request uid items =
     \<lparr>req_UserId = uid, req_Items = items, req_ShippingInfo = Some home,
      req_PaymentMethod = PAYMENT_METHOD_CREDIT_CARD\<rparr>"

definition empty_float_db :: "float64 tables database" where
  "empty_float_db =
     \<lparr>committed = \<lparr>orders = [], order_items = [], payment_info = [], shipping_info = []\<rparr>,
      open_tx = None\<rparr>"

definition accepting_repo :: "float64 OrderRepository" where
  "accepting_repo =
     \<lparr>repo_CreateOrder = (\<lambda>cancelled order. None),
      repo_GetOrder = (\<lambda>oid. Inr None),
      repo_UpdateOrder = (\<lambda>order. None)\<rparr>"

definition big_items :: "float64 OrderItem list" where
  "big_items = [fsku ''sku-1'' 1 (Finite 10000000000000000), fsku ''sku-2'' 1 (Finite 1)]"

definition dime_items :: "float64 OrderItem list" where
  "dime_items = [fsku ''sku-1'' 3 (Finite (3602879701896397 / 36028797018963968))]"

text \<open>
  A repository whose page holds an order of \<open>U1\<close> and then an order of \<open>U9\<close>,
  whatever is asked, and one whose page is empty.
\<close>

definition mixed_page :: "real Order list" where
  "mixed_page = [example_order, example_order\<lparr>ID := ''o-9'', UserID := ''U9''\<rparr>]"

definition mixed_repo :: "string \<Rightarrow> OrderStatus \<Rightarrow> int \<Rightarrow> string \<Rightarrow> sqlerr + (real Order list \<times> string)" where
  "mixed_repo userID status pageSize pageToken = Inr (mixed_page, ''next'')"

definition empty_repo :: "string \<Rightarrow> OrderStatus \<Rightarrow> int \<Rightarrow> string \<Rightarrow> sqlerr + (real Order list \<times> string)" where
  "empty_repo userID status pageSize pageToken = Inr ([], [])"

section \<open>Properties\<close>

subsection \<open>Transactions\<close>

lemma tx_ExecContext_committed:
  "tx_ExecContext fault stmt db = Inr db' \<Longrightarrow> committed db' = committed db"
  by (auto simp: tx_ExecContext_def split: option.splits)

lemma tx_ExecContext_Inr:
  "tx_ExecContext fault stmt db = Inr db' \<longleftrightarrow>
     fault = None \<and> (\<exists>w. open_tx db = Some w \<and> db' = db\<lparr>open_tx := Some (stmt w)\<rparr>)"
  by (auto simp: tx_ExecContext_def split: option.splits)

lemma insert_items_error:
  "insert_items faults uuid orderID k items db = (Some err, db') \<Longrightarrow>
     committed db' = committed db \<and> open_tx db' = None"
proof (induction items arbitrary: k db)
  case Nil
  then show ?case by simp
next
  case (Cons item rest)
  show ?case
  proof (cases "tx_ExecContext (faults (k + 2)) (insert_item (item_row_of uuid orderID k item)) db")
    case (Inl e)
    with Cons.prems show ?thesis by (auto simp: tx_Rollback_def)
  next
    case (Inr db1)
    with Cons.prems have "insert_items faults uuid orderID (Suc k) rest db1 = (Some err, db')"
      by simp
    from Cons.IH [OF this] tx_ExecContext_committed [OF Inr] show ?thesis by simp
  qed
qed

lemma insert_items_ok:
  "insert_items faults uuid orderID k items db = (None, db') \<Longrightarrow> open_tx db = Some w \<Longrightarrow>
     db' = db\<lparr>open_tx := Some (w\<lparr>order_items := order_items w @
             map (\<lambda>j. item_row_of uuid orderID (k + j) (items ! j)) [0..<length items]\<rparr>)\<rparr>
     \<and> (\<forall>j<length items. faults (k + j + 2) = None)"
proof (induction items arbitrary: k db w)
  case Nil
  then show ?case by simp
next
  case (Cons item rest)
  show ?case
  proof (cases "tx_ExecContext (faults (k + 2)) (insert_item (item_row_of uuid orderID k item)) db")
    case (Inl e)
    with Cons.prems show ?thesis by simp
  next
    case (Inr db1)
    with Cons.prems have rest: "insert_items faults uuid orderID (Suc k) rest db1 = (None, db')"
      by simp
    from Inr Cons.prems(2) have f: "faults (k + 2) = None"
      and db1: "db1 = db\<lparr>open_tx := Some (insert_item (item_row_of uuid orderID k item) w)\<rparr>"
      by (auto simp: tx_ExecContext_Inr)
    have o: "open_tx db1 = Some (insert_item (item_row_of uuid orderID k item) w)"
      by (simp add: db1)
    from Cons.IH [OF rest o] show ?thesis
      using f by (auto simp: db1 insert_item_def map_upt_Suc less_Suc_eq_0_disj simp del: upt_Suc)
  qed
qed

lemma insert_items_no_fault:
  "open_tx db = Some w \<Longrightarrow> \<forall>j<length items. faults (k + j + 2) = None \<Longrightarrow>
     fst (insert_items faults uuid orderID k items db) = None"
proof (induction items arbitrary: k db w)
  case Nil
  then show ?case by simp
next
  case (Cons item rest)
  from Cons.prems(2) have f: "faults (k + 2) = None" by force
  from Cons.prems(2) have r: "\<forall>j<length rest. faults (Suc k + j + 2) = None" by force
  let ?db1 = "db\<lparr>open_tx := Some (insert_item (item_row_of uuid orderID k item) w)\<rparr>"
  have step: "tx_ExecContext (faults (k + 2)) (insert_item (item_row_of uuid orderID k item)) db = Inr ?db1"
    using f Cons.prems(1) by (simp add: tx_ExecContext_def)
  have "open_tx ?db1 = Some (insert_item (item_row_of uuid orderID k item) w)" by simp
  from Cons.IH [OF this r] show ?case using step by simp
qed

lemma insert_items_committed:
  "insert_items faults uuid orderID k items db = (r, db') \<Longrightarrow> committed db' = committed db"
proof (induction items arbitrary: k db)
  case Nil
  then show ?case by simp
next
  case (Cons item rest)
  show ?case
  proof (cases "tx_ExecContext (faults (k + 2)) (insert_item (item_row_of uuid orderID k item)) db")
    case (Inl e)
    with Cons.prems show ?thesis by (auto simp: tx_Rollback_def)
  next
    case (Inr db1)
    with Cons.prems have "insert_items faults uuid orderID (Suc k) rest db1 = (r, db')"
      by simp
    from Cons.IH [OF this] tx_ExecContext_committed [OF Inr] show ?thesis by simp
  qed
qed

lemma CreateOrder_failure:
  assumes "open_tx db = None"
    and "orderRepository_CreateOrder faults uuid now order db = (Some err, db')"
  shows "db' = db"
proof -
  have eq: "db' = db" if "committed db' = committed db" "open_tx db' = None"
    using that assms(1) by (cases db; cases db') simp
  have "committed db' = committed db \<and> open_tx db' = None"
    using assms
    by (auto simp: orderRepository_CreateOrder_def Let_def BeginTx_def tx_Rollback_def
          tx_Commit_def tx_ExecContext_Inr
        split: option.splits sum.splits prod.splits
        dest: insert_items_error insert_items_committed)
  then show ?thesis using eq by simp
qed

lemma CreateOrder_success:
  assumes "orderRepository_CreateOrder faults uuid now order db = (None, db')"
  shows "db' = \<lparr>committed = rows_added uuid now order (committed db), open_tx = None\<rparr>
         \<and> (\<forall>k \<le> length (Items order) + 4. faults k = None)"
proof -
  let ?n = "length (Items order)"
  let ?db2 = "db\<lparr>open_tx := Some (insert_order (header_row now order) (committed db))\<rparr>"
  from assms have f0: "faults 0 = None" and f1: "faults 1 = None"
    by (auto simp: orderRepository_CreateOrder_def Let_def BeginTx_def tx_ExecContext_def
        split: option.splits sum.splits prod.splits)
  from assms f0 f1 obtain db3 where
    items: "insert_items faults uuid (ID order) 0 (Items order) ?db2 = (None, db3)"
    and rest: "(case tx_ExecContext (faults (?n + 2)) (insert_payment (payment_row_of uuid now order)) db3 of
        Inl err \<Rightarrow> (Some err, tx_Rollback db3)
      | Inr db4 \<Rightarrow>
     (case tx_ExecContext (faults (?n + 3)) (insert_shipping (shipping_row_of uuid order)) db4 of
        Inl err \<Rightarrow> (Some err, tx_Rollback db4)
      | Inr db5 \<Rightarrow> tx_Commit (faults (?n + 4)) db5)) = (None, db')"
    by (auto simp: orderRepository_CreateOrder_def Let_def BeginTx_def tx_ExecContext_def
        split: option.splits sum.splits prod.splits)
  have "open_tx ?db2 = Some (insert_order (header_row now order) (committed db))" by simp
  from insert_items_ok [OF items this]
  have db3: "db3 = db\<lparr>open_tx := Some ((insert_order (header_row now order) (committed db))
      \<lparr>order_items := order_items (insert_order (header_row now order) (committed db)) @
         map (\<lambda>j. item_row_of uuid (ID order) j (Items order ! j)) [0..<?n]\<rparr>)\<rparr>"
    and fi: "\<forall>j<?n. faults (j + 2) = None"
    by simp_all
  from rest have f2: "faults (?n + 2) = None" and f3: "faults (?n + 3) = None"
    and f4: "faults (?n + 4) = None"
    by (auto simp: tx_ExecContext_def tx_Commit_def db3 split: option.splits sum.splits)
  from rest f2 f3 f4
  have "db' = \<lparr>committed = rows_added uuid now order (committed db), open_tx = None\<rparr>"
    by (cases "committed db")
       (auto simp: tx_ExecContext_def tx_Commit_def db3 rows_added_def insert_order_def
          insert_payment_def insert_shipping_def)
  moreover have "faults k = None" if "k \<le> ?n + 4" for k
  proof -
    have mid: "faults j = None" if "2 \<le> j" "j < ?n + 2" for j
    proof -
      from that have "j - 2 < ?n" and "j - 2 + 2 = j" by arith+
      with fi [rule_format, of "j - 2"] show ?thesis by simp
    qed
    have "k = 0 \<or> k = 1 \<or> (2 \<le> k \<and> k < ?n + 2) \<or> k = ?n + 2 \<or> k = ?n + 3 \<or> k = ?n + 4"
      using that by arith
    then show ?thesis using f0 f1 f2 f3 f4 mid by auto
  qed
  ultimately show ?thesis by blast
qed

lemma CreateOrder_no_fault:
  assumes "\<forall>k \<le> length (Items order) + 4. faults k = None"
  shows "fst (orderRepository_CreateOrder faults uuid now order db) = None"
proof -
  let ?n = "length (Items order)"
  let ?w1 = "insert_order (header_row now order) (committed db)"
  let ?db2 = "db\<lparr>open_tx := Some ?w1\<rparr>"
  from assms have f0: "faults 0 = None" and f1: "faults 1 = None"
    and f2: "faults (?n + 2) = None" and f3: "faults (?n + 3) = None"
    and f4: "faults (?n + 4) = None"
    by simp_all
  from assms have fi: "\<forall>j<?n. faults (0 + j + 2) = None" by simp
  have o2: "open_tx ?db2 = Some ?w1" by simp
  from insert_items_no_fault [OF o2 fi]
  obtain db3 where items: "insert_items faults uuid (ID order) 0 (Items order) ?db2 = (None, db3)"
    by (metis prod.collapse)
  from insert_items_ok [OF items o2] obtain w3 where o3: "open_tx db3 = Some w3"
    by simp
  show ?thesis
    using f0 f1 f2 f3 f4 items o3
    by (simp add: orderRepository_CreateOrder_def Let_def BeginTx_def tx_ExecContext_def
        tx_Commit_def)
qed

lemma pg_insert_items_committed:
  "pg_insert_items faults orderID k items db = (r, db') \<Longrightarrow> committed db' = committed db"
proof (induction items arbitrary: k db)
  case Nil
  then show ?case by simp
next
  case (Cons item rest)
  show ?case
  proof (cases "tx_ExecContext (faults (k + 2))
                  (pg_insert_item \<lparr>pgi_order_id = orderID, pgi_item = item\<rparr>) db")
    case (Inl e)
    with Cons.prems show ?thesis by auto
  next
    case (Inr db1)
    with Cons.prems have "pg_insert_items faults orderID (Suc k) rest db1 = (r, db')"
      by simp
    from Cons.IH [OF this] tx_ExecContext_committed [OF Inr] show ?thesis by simp
  qed
qed

lemma pg_insert_items_ok:
  "pg_insert_items faults orderID k items db = (None, db') \<Longrightarrow> open_tx db = Some w \<Longrightarrow>
     db' = db\<lparr>open_tx := Some (w\<lparr>pg_order_items := pg_order_items w @
             map (\<lambda>item. \<lparr>pgi_order_id = orderID, pgi_item = item\<rparr>) items\<rparr>)\<rparr>
     \<and> (\<forall>j<length items. faults (k + j + 2) = None)"
proof (induction items arbitrary: k db w)
  case Nil
  then show ?case by simp
next
  case (Cons item rest)
  let ?stmt = "pg_insert_item \<lparr>pgi_order_id = orderID, pgi_item = item\<rparr>"
  show ?case
  proof (cases "tx_ExecContext (faults (k + 2)) ?stmt db")
    case (Inl e)
    with Cons.prems show ?thesis by simp
  next
    case (Inr db1)
    with Cons.prems have rest: "pg_insert_items faults orderID (Suc k) rest db1 = (None, db')"
      by simp
    from Inr Cons.prems(2) have f: "faults (k + 2) = None"
      and db1: "db1 = db\<lparr>open_tx := Some (?stmt w)\<rparr>"
      by (auto simp: tx_ExecContext_Inr)
    have o: "open_tx db1 = Some (?stmt w)"
      by (simp add: db1)
    from Cons.IH [OF rest o] show ?thesis
      using f by (auto simp: db1 pg_insert_item_def less_Suc_eq_0_disj)
  qed
qed

lemma pg_insert_items_no_fault:
  "open_tx db = Some w \<Longrightarrow> \<forall>j<length items. faults (k + j + 2) = None \<Longrightarrow>
     fst (pg_insert_items faults orderID k items db) = None"
proof (induction items arbitrary: k db w)
  case Nil
  then show ?case by simp
next
  case (Cons item rest)
  let ?stmt = "pg_insert_item \<lparr>pgi_order_id = orderID, pgi_item = item\<rparr>"
  from Cons.prems(2) have f: "faults (k + 2) = None" by force
  from Cons.prems(2) have r: "\<forall>j<length rest. faults (Suc k + j + 2) = None" by force
  let ?db1 = "db\<lparr>open_tx := Some (?stmt w)\<rparr>"
  have step: "tx_ExecContext (faults (k + 2)) ?stmt db = Inr ?db1"
    using f Cons.prems(1) by (simp add: tx_ExecContext_def)
  have "open_tx ?db1 = Some (?stmt w)" by simp
  from Cons.IH [OF this r] show ?case using step by simp
qed

lemma pg_body_committed:
  assumes "postgres_CreateOrder_body faults json clock order db1 = (Some err, db')"
  shows "committed db' = committed db1"
  using assms
  by (auto simp: postgres_CreateOrder_body_def tx_Commit_def tx_ExecContext_Inr
      split: sum.splits prod.splits option.splits
      dest: pg_insert_items_committed)

lemma postgres_CreateOrder_failure:
  assumes "open_tx db = None"
    and "postgres_CreateOrder faults json clock order db = (Some err, db')"
  shows "db' = db"
proof -
  have eq: "db' = db" if "committed db' = committed db" "open_tx db' = None"
    using that assms(1) by (cases db; cases db') simp
  have "committed db' = committed db \<and> open_tx db' = None"
    using assms
    by (auto simp: postgres_CreateOrder_def BeginTx_def tx_Rollback_def
        split: option.splits sum.splits prod.splits dest: pg_body_committed)
  then show ?thesis using eq by simp
qed

lemma postgres_CreateOrder_success:
  assumes "postgres_CreateOrder faults json clock order db = (None, db')"
  shows "\<exists>p s. Marshal_PaymentInfo json (pb_PaymentInfo order) = Inr p
           \<and> Marshal_ShippingInfo json (pb_ShippingInfo order) = Inr s
           \<and> db' = \<lparr>committed = pg_rows_added clock p s order (committed db), open_tx = None\<rparr>
           \<and> (\<forall>k \<le> length (pb_Items order) + 2. faults k = None)"
proof -
  let ?n = "length (pb_Items order)"
  from assms obtain p s where p: "Marshal_PaymentInfo json (pb_PaymentInfo order) = Inr p"
    and s: "Marshal_ShippingInfo json (pb_ShippingInfo order) = Inr s"
    and f0: "faults 0 = None" and f1: "faults 1 = None"
    by (auto simp: postgres_CreateOrder_def postgres_CreateOrder_body_def BeginTx_def
        tx_ExecContext_def split: option.splits sum.splits prod.splits)
  let ?w1 = "pg_insert_order (pg_header_row clock p s order) (committed db)"
  let ?db2 = "db\<lparr>open_tx := Some ?w1\<rparr>"
  from assms p s f0 f1 obtain db3 where
    items: "pg_insert_items faults (pb_Id order) 0 (pb_Items order) ?db2 = (None, db3)"
    and rest: "(case tx_Commit (faults (?n + 2)) db3 of
        (Some err, db') \<Rightarrow> (Some (Errorf_sql ''failed to commit transaction'' err), db')
      | (None, db') \<Rightarrow> (None, tx_Rollback db')) = (None, db')"
    by (auto simp: postgres_CreateOrder_def postgres_CreateOrder_body_def BeginTx_def
        tx_ExecContext_def tx_Rollback_def split: option.splits sum.splits prod.splits)
  have o2: "open_tx ?db2 = Some ?w1" by simp
  from pg_insert_items_ok [OF items o2]
  have db3: "db3 = db\<lparr>open_tx := Some (?w1\<lparr>pg_order_items := pg_order_items ?w1 @
         map (\<lambda>item. \<lparr>pgi_order_id = pb_Id order, pgi_item = item\<rparr>) (pb_Items order)\<rparr>)\<rparr>"
    and fi: "\<forall>j<?n. faults (j + 2) = None"
    by simp_all
  from rest have f2: "faults (?n + 2) = None"
    by (auto simp: tx_Commit_def db3 split: option.splits)
  from rest f2
  have "db' = \<lparr>committed = pg_rows_added clock p s order (committed db), open_tx = None\<rparr>"
    by (cases "committed db")
       (auto simp: tx_Commit_def tx_Rollback_def db3 pg_rows_added_def pg_insert_order_def)
  moreover have "faults k = None" if "k \<le> ?n + 2" for k
  proof -
    have mid: "faults j = None" if "2 \<le> j" "j < ?n + 2" for j
    proof -
      from that have "j - 2 < ?n" and "j - 2 + 2 = j" by arith+
      with fi [rule_format, of "j - 2"] show ?thesis by simp
    qed
    have "k = 0 \<or> k = 1 \<or> (2 \<le> k \<and> k < ?n + 2) \<or> k = ?n + 2"
      using that by arith
    then show ?thesis using f0 f1 f2 mid by auto
  qed
  ultimately show ?thesis using p s by blast
qed

lemma postgres_CreateOrder_no_fault:
  assumes "Marshal_PaymentInfo json (pb_PaymentInfo order) = Inr p"
    and "Marshal_ShippingInfo json (pb_ShippingInfo order) = Inr s"
    and "\<forall>k \<le> length (pb_Items order) + 2. faults k = None"
  shows "fst (postgres_CreateOrder faults json clock order db) = None"
proof -
  let ?n = "length (pb_Items order)"
  let ?w1 = "pg_insert_order (pg_header_row clock p s order) (committed db)"
  let ?db2 = "db\<lparr>open_tx := Some ?w1\<rparr>"
  from assms(3) have f0: "faults 0 = None" and f1: "faults 1 = None"
    and f2: "faults (?n + 2) = None"
    by simp_all
  from assms(3) have fi: "\<forall>j<?n. faults (0 + j + 2) = None" by simp
  have o2: "open_tx ?db2 = Some ?w1" by simp
  from pg_insert_items_no_fault [OF o2 fi]
  obtain db3 where items: "pg_insert_items faults (pb_Id order) 0 (pb_Items order) ?db2 = (None, db3)"
    by (metis prod.collapse)
  from pg_insert_items_ok [OF items o2] obtain w3 where o3: "open_tx db3 = Some w3"
    by simp
  show ?thesis
    using f0 f1 f2 items o3 assms(1,2)
    by (simp add: postgres_CreateOrder_def postgres_CreateOrder_body_def BeginTx_def
        tx_ExecContext_def tx_Commit_def)
qed

text \<open>
  C1. Creating an order is all or nothing, in the MySQL repository of the handler and in
  the PostgreSQL repository alike. Started with no transaction open, a call that returns
  an error leaves the database exactly as it was, with no transaction left open, so every
  later read answers as before; a call that returns no error has committed the header,
  every item, the payment record and the shipping record together; and the call returns
  an error exactly when one of its round trips to the database fails (for the PostgreSQL
  repository, or when a record cannot be marshalled).
\<close>

theorem CreateOrder_all_or_nothing:
  assumes "open_tx db = None" and "open_tx pdb = None"
  shows "(let r = orderRepository_CreateOrder faults uuid now order db in
          (fst r \<noteq> None \<longrightarrow>
             snd r = db \<and>
             (\<forall>flt oid. orderRepository_GetOrder flt oid (snd r)
                        = orderRepository_GetOrder flt oid db))
        \<and> (fst r = None \<longrightarrow>
             snd r = \<lparr>committed = rows_added uuid now order (committed db), open_tx = None\<rparr>)
        \<and> (fst r = None \<longleftrightarrow> (\<forall>k \<le> length (Items order) + 4. faults k = None)))
       \<and>
         (let r = postgres_CreateOrder pfaults json clock porder pdb in
          (fst r \<noteq> None \<longrightarrow> snd r = pdb)
        \<and> (fst r = None \<longrightarrow>
             (\<exists>p s. Marshal_PaymentInfo json (pb_PaymentInfo porder) = Inr p
                  \<and> Marshal_ShippingInfo json (pb_ShippingInfo porder) = Inr s
                  \<and> snd r = \<lparr>committed = pg_rows_added clock p s porder (committed pdb),
                             open_tx = None\<rparr>))
        \<and> (fst r = None \<longleftrightarrow>
             (\<not> isl (Marshal_PaymentInfo json (pb_PaymentInfo porder))
              \<and> \<not> isl (Marshal_ShippingInfo json (pb_ShippingInfo porder))
              \<and> (\<forall>k \<le> length (pb_Items porder) + 2. pfaults k = None))))"
proof -
  have mysql: "(let r = orderRepository_CreateOrder faults uuid now order db in
          (fst r \<noteq> None \<longrightarrow>
             snd r = db \<and>
             (\<forall>flt oid. orderRepository_GetOrder flt oid (snd r)
                        = orderRepository_GetOrder flt oid db))
        \<and> (fst r = None \<longrightarrow>
             snd r = \<lparr>committed = rows_added uuid now order (committed db), open_tx = None\<rparr>)
        \<and> (fst r = None \<longleftrightarrow> (\<forall>k \<le> length (Items order) + 4. faults k = None)))"
  proof -
    obtain e db' where r: "orderRepository_CreateOrder faults uuid now order db = (e, db')"
      by (cases "orderRepository_CreateOrder faults uuid now order db")
    show ?thesis
    proof (cases e)
      case None
      with r CreateOrder_success [of faults uuid now order db db'] show ?thesis
        by (simp add: Let_def)
    next
      case (Some err)
      with r CreateOrder_failure [OF assms(1), of faults uuid now order err db']
      have "db' = db" by simp
      moreover have "\<not> (\<forall>k \<le> length (Items order) + 4. faults k = None)"
      proof
        assume "\<forall>k \<le> length (Items order) + 4. faults k = None"
        from CreateOrder_no_fault [OF this, of uuid now db] r Some show False by simp
      qed
      ultimately show ?thesis using r Some by (simp add: Let_def)
    qed
  qed
  have pg: "(let r = postgres_CreateOrder pfaults json clock porder pdb in
          (fst r \<noteq> None \<longrightarrow> snd r = pdb)
        \<and> (fst r = None \<longrightarrow>
             (\<exists>p s. Marshal_PaymentInfo json (pb_PaymentInfo porder) = Inr p
                  \<and> Marshal_ShippingInfo json (pb_ShippingInfo porder) = Inr s
                  \<and> snd r = \<lparr>committed = pg_rows_added clock p s porder (committed pdb),
                             open_tx = None\<rparr>))
        \<and> (fst r = None \<longleftrightarrow>
             (\<not> isl (Marshal_PaymentInfo json (pb_PaymentInfo porder))
              \<and> \<not> isl (Marshal_ShippingInfo json (pb_ShippingInfo porder))
              \<and> (\<forall>k \<le> length (pb_Items porder) + 2. pfaults k = None))))"
  proof -
    obtain e db' where r: "postgres_CreateOrder pfaults json clock porder pdb = (e, db')"
      by (cases "postgres_CreateOrder pfaults json clock porder pdb")
    show ?thesis
    proof (cases e)
      case None
      with r postgres_CreateOrder_success [of pfaults json clock porder pdb db']
      show ?thesis by (auto simp: Let_def)
    next
      case (Some err)
      with r postgres_CreateOrder_failure [OF assms(2), of pfaults json clock porder err db']
      have "db' = pdb" by simp
      moreover have "\<not> (\<not> isl (Marshal_PaymentInfo json (pb_PaymentInfo porder))
              \<and> \<not> isl (Marshal_ShippingInfo json (pb_ShippingInfo porder))
              \<and> (\<forall>k \<le> length (pb_Items porder) + 2. pfaults k = None))"
      proof
        assume a: "\<not> isl (Marshal_PaymentInfo json (pb_PaymentInfo porder))
              \<and> \<not> isl (Marshal_ShippingInfo json (pb_ShippingInfo porder))
              \<and> (\<forall>k \<le> length (pb_Items porder) + 2. pfaults k = None)"
        then obtain p s where "Marshal_PaymentInfo json (pb_PaymentInfo porder) = Inr p"
          and "Marshal_ShippingInfo json (pb_ShippingInfo porder) = Inr s"
          by (metis isl_def sum.exhaust_sel)
        from postgres_CreateOrder_no_fault [OF this, of pfaults clock pdb] a r Some
        show False by simp
      qed
      ultimately show ?thesis using r Some by (simp add: Let_def)
    qed
  qed
  from mysql pg show ?thesis by blast
qed

text \<open>
  The third item write fails (round trip 4 of the MySQL repository, round trip 4 of the
  PostgreSQL one): both calls return the error and both databases are as before.
\<close>

theorem CreateOrder_third_item_fails:
  "open_tx empty_db = None \<and> open_tx empty_pg_db = None
   \<and> fst (orderRepository_CreateOrder (fault_at 4) uuids 100 example_order empty_db)
       = Some (DriverError ''connection lost'')
   \<and> snd (orderRepository_CreateOrder (fault_at 4) uuids 100 example_order empty_db) = empty_db
   \<and> fst (postgres_CreateOrder (fault_at 4) example_json (\<lambda>k. 100) example_pb_order empty_pg_db)
       = Some (Errorf_sql ''failed to create order item'' (DriverError ''connection lost''))
   \<and> snd (postgres_CreateOrder (fault_at 4) example_json (\<lambda>k. 100) example_pb_order empty_pg_db)
       = empty_pg_db"
proof -
  have h: "open_tx empty_db = None" by (simp add: empty_db_def)
  have hp: "open_tx empty_pg_db = None" by (simp add: empty_pg_db_def)
  have f: "fst (orderRepository_CreateOrder (fault_at 4) uuids 100 example_order empty_db)
             = Some (DriverError ''connection lost'')"
    by (simp add: orderRepository_CreateOrder_def Let_def BeginTx_def tx_ExecContext_def
        tx_Rollback_def fault_at_def example_order_def three_items_def empty_db_def)
  have fp: "fst (postgres_CreateOrder (fault_at 4) example_json (\<lambda>k. 100) example_pb_order
                   empty_pg_db)
             = Some (Errorf_sql ''failed to create order item'' (DriverError ''connection lost''))"
    by (simp add: postgres_CreateOrder_def postgres_CreateOrder_body_def BeginTx_def
        tx_ExecContext_def tx_Rollback_def fault_at_def example_pb_order_def three_items_def
        empty_pg_db_def example_json_def)
  from CreateOrder_all_or_nothing [OF h hp, of "fault_at 4" uuids 100 example_order
      "fault_at 4" example_json "\<lambda>k. 100" example_pb_order] f fp h hp
  show ?thesis by (simp add: Let_def)
qed

subsection \<open>The transition table\<close>

text \<open>
  C2. \<open>isValidStatusTransition current requested\<close> is true exactly for the four pairs
  (pending, processing), (pending, cancelled), (processing, completed) and
  (processing, failed). The statuses that are no key of the table (completed, cancelled,
  failed, unspecified) have no legal target at all.
\<close>

theorem isValidStatusTransition_table:
  "isValidStatusTransition current requested =
     ((current, requested) \<in>
        {(ORDER_STATUS_PENDING, ORDER_STATUS_PROCESSING),
         (ORDER_STATUS_PENDING, ORDER_STATUS_CANCELLED),
         (ORDER_STATUS_PROCESSING, ORDER_STATUS_COMPLETED),
         (ORDER_STATUS_PROCESSING, ORDER_STATUS_FAILED)})
   \<and> \<not> isValidStatusTransition ORDER_STATUS_COMPLETED requested
   \<and> \<not> isValidStatusTransition ORDER_STATUS_CANCELLED requested
   \<and> \<not> isValidStatusTransition ORDER_STATUS_FAILED requested
   \<and> \<not> isValidStatusTransition ORDER_STATUS_UNSPECIFIED requested"
  by (cases current; cases requested)
     (simp_all add: isValidStatusTransition_def transitions_def)

subsection \<open>Updating the status\<close>

lemma set_status_id [simp]: "or_id (set_status oid status now r) = or_id r"
  by (simp add: set_status_def)

lemma filter_set_status:
  "filter (\<lambda>r. or_id r = x) (map (set_status oid status now) rows)
     = map (set_status oid status now) (filter (\<lambda>r. or_id r = x) rows)"
  by (induction rows) auto

lemma filter_other_set_status:
  "filter (\<lambda>r. or_id r \<noteq> oid) (map (set_status oid status now) rows)
     = filter (\<lambda>r. or_id r \<noteq> oid) rows"
  by (induction rows) (auto simp: set_status_def)

lemma RowsAffected_0:
  "RowsAffected oid status now rows = 0 \<longleftrightarrow> map (set_status oid status now) rows = rows"
  by (induction rows) (auto simp: RowsAffected_def set_status_def)

lemma filter_same_set_status:
  "filter (\<lambda>r. or_id r = oid) (map (set_status oid status now) rows)
     = map (\<lambda>r. r\<lparr>or_status := status, or_updated_at := now\<rparr>) (filter (\<lambda>r. or_id r = oid) rows)"
  by (induction rows) (auto simp: set_status_def)

lemma filter_id_set_status_other:
  "x \<noteq> oid \<Longrightarrow> filter (\<lambda>r. or_id r = x) (map (set_status oid status now) rows)
     = filter (\<lambda>r. or_id r = x) rows"
  by (induction rows) (auto simp: set_status_def)

lemma QueryRow_map:
  "QueryRow fault (map g rows) = map_sum (\<lambda>e. e) g (QueryRow fault rows)"
  by (cases fault; cases rows) (simp_all add: QueryRow_def)

lemma GetOrder_after_update:
  "orderRepository_GetOrder flt x
       (db\<lparr>committed := (committed db)\<lparr>orders := map (set_status oid status now) (orders (committed db))\<rparr>\<rparr>)
     = (if x = oid
        then map_sum (\<lambda>e. e) (\<lambda>order. order\<lparr>Status := status, UpdatedAt := now\<rparr>)
               (orderRepository_GetOrder flt x db)
        else orderRepository_GetOrder flt x db)"
proof (cases "x = oid")
  case False
  then show ?thesis
    by (simp add: orderRepository_GetOrder_def Let_def filter_id_set_status_other
        cong: sum.case_cong)
next
  case True
  then show ?thesis
    by (simp add: orderRepository_GetOrder_def Let_def filter_same_set_status QueryRow_map
        split: sum.splits cong: sum.case_cong)
qed

text \<open>
  C9. \<open>UpdateOrderStatus\<close> of the persistence component touches nothing but the status
  and the last-update timestamp of the rows of that order: the item, payment and shipping
  tables are as before, every header row keeps its identifier, user, total and creation
  timestamp, rows of other orders are as before, and after a successful call every read
  answers as before except that the order read has the new status and timestamp. The call
  fails with \<^verbatim>\<open>sql.ErrNoRows\<close>, the repository's not-found error, exactly when the
  statement ran and affected zero rows, which it does when no row has that identifier; the
  database is then as before.
\<close>

theorem UpdateOrderStatus_frame:
  "(let r = orderRepository_UpdateOrderStatus fault now oid status db;
        t = committed db; t' = committed (snd r) in
      order_items t' = order_items t \<and> payment_info t' = payment_info t
    \<and> shipping_info t' = shipping_info t \<and> open_tx (snd r) = open_tx db
    \<and> map or_id (orders t') = map or_id (orders t)
    \<and> map or_user_id (orders t') = map or_user_id (orders t)
    \<and> map or_total_amount (orders t') = map or_total_amount (orders t)
    \<and> map or_created_at (orders t') = map or_created_at (orders t)
    \<and> filter (\<lambda>x. or_id x \<noteq> oid) (orders t') = filter (\<lambda>x. or_id x \<noteq> oid) (orders t)
    \<and> (fst r = None \<longrightarrow>
         (\<forall>x \<in> set (orders t'). or_id x = oid \<longrightarrow> or_status x = status \<and> or_updated_at x = now))
    \<and> (fst r = None \<longrightarrow>
         (\<forall>flt x. orderRepository_GetOrder flt x (snd r)
            = (if x = oid
               then map_sum (\<lambda>e. e) (\<lambda>order. order\<lparr>Status := status, UpdatedAt := now\<rparr>)
                      (orderRepository_GetOrder flt x db)
               else orderRepository_GetOrder flt x db)))
    \<and> (fst r = Some ErrNoRows \<longleftrightarrow> fault = None \<and> RowsAffected oid status now (orders t) = 0)
    \<and> (fst r = Some ErrNoRows \<longrightarrow> snd r = db)
    \<and> (fault = None \<and> (\<forall>x \<in> set (orders t). or_id x \<noteq> oid) \<longrightarrow> fst r = Some ErrNoRows))"
proof (cases fault)
  case (Some m)
  then show ?thesis by (simp add: orderRepository_UpdateOrderStatus_def Let_def)
next
  case None
  let ?rows = "orders (committed db)"
  let ?rows' = "map (set_status oid status now) ?rows"
  let ?db' = "db\<lparr>committed := (committed db)\<lparr>orders := ?rows'\<rparr>\<rparr>"
  let ?r = "orderRepository_UpdateOrderStatus fault now oid status db"
  have r1: "fst ?r = (if RowsAffected oid status now ?rows = 0 then Some ErrNoRows else None)"
    and r2: "snd ?r = ?db'"
    using None by (simp_all add: orderRepository_UpdateOrderStatus_def Let_def)
  have t': "orders (committed (snd ?r)) = ?rows'" by (simp add: r2)
  have c1: "order_items (committed (snd ?r)) = order_items (committed db)" by (simp add: r2)
  have c2: "payment_info (committed (snd ?r)) = payment_info (committed db)" by (simp add: r2)
  have c3: "shipping_info (committed (snd ?r)) = shipping_info (committed db)" by (simp add: r2)
  have c4: "open_tx (snd ?r) = open_tx db" by (simp add: r2)
  have c5: "map or_id (orders (committed (snd ?r))) = map or_id ?rows"
    by (simp add: t' set_status_def)
  have c6: "map or_user_id (orders (committed (snd ?r))) = map or_user_id ?rows"
    by (simp add: t' set_status_def)
  have c7: "map or_total_amount (orders (committed (snd ?r))) = map or_total_amount ?rows"
    by (simp add: t' set_status_def)
  have c8: "map or_created_at (orders (committed (snd ?r))) = map or_created_at ?rows"
    by (simp add: t' set_status_def)
  have c9: "filter (\<lambda>x. or_id x \<noteq> oid) (orders (committed (snd ?r)))
              = filter (\<lambda>x. or_id x \<noteq> oid) ?rows"
    by (simp add: t' filter_other_set_status)
  have c10: "fst ?r = None \<longrightarrow>
         (\<forall>x \<in> set (orders (committed (snd ?r))).
            or_id x = oid \<longrightarrow> or_status x = status \<and> or_updated_at x = now)"
  proof (intro impI ballI)
    fix x
    assume "x \<in> set (orders (committed (snd ?r)))" and x: "or_id x = oid"
    then obtain y where "x = set_status oid status now y"
      unfolding t' by auto
    with x show "or_status x = status \<and> or_updated_at x = now"
      by (simp add: set_status_def split: if_splits)
  qed
  have c11: "fst ?r = None \<longrightarrow>
         (\<forall>flt x. orderRepository_GetOrder flt x (snd ?r)
            = (if x = oid
               then map_sum (\<lambda>e. e) (\<lambda>order. order\<lparr>Status := status, UpdatedAt := now\<rparr>)
                      (orderRepository_GetOrder flt x db)
               else orderRepository_GetOrder flt x db))"
    unfolding r2 by (intro impI allI) (rule GetOrder_after_update)
  have c12: "fst ?r = Some ErrNoRows \<longleftrightarrow> fault = None \<and> RowsAffected oid status now ?rows = 0"
    unfolding r1 using None by simp
  have c13: "fst ?r = Some ErrNoRows \<longrightarrow> snd ?r = db"
  proof
    assume "fst ?r = Some ErrNoRows"
    then have "RowsAffected oid status now ?rows = 0" by (simp add: r1 split: if_splits)
    then have "?rows' = ?rows" by (simp add: RowsAffected_0)
    then show "snd ?r = db" by (simp add: r2)
  qed
  have c14: "fault = None \<and> (\<forall>x \<in> set ?rows. or_id x \<noteq> oid) \<longrightarrow> fst ?r = Some ErrNoRows"
    unfolding r1 by (auto simp: RowsAffected_def filter_empty_conv)
  show ?thesis
    unfolding Let_def
    by (intro conjI) (fact c1, fact c2, fact c3, fact c4, fact c5, fact c6, fact c7, fact c8,
        fact c9, fact c10, fact c11, fact c12, fact c13, fact c14)
qed

text \<open>
  On the database holding the one order \<open>o-1\<close>: moving it to processing succeeds and a
  read shows the new status and timestamp; an identifier that no row has gives
  \<^verbatim>\<open>sql.ErrNoRows\<close> and leaves the database as it was.
\<close>

theorem UpdateOrderStatus_frame_witness:
  "fst (orderRepository_UpdateOrderStatus None 200 ''o-1'' ORDER_STATUS_PROCESSING one_order_db)
     = None
   \<and> orderRepository_GetOrder no_faults ''o-1''
       (snd (orderRepository_UpdateOrderStatus None 200 ''o-1'' ORDER_STATUS_PROCESSING
          one_order_db))
     = Inr (example_order\<lparr>Status := ORDER_STATUS_PROCESSING, CreatedAt := 100, UpdatedAt := 200,
              PaymentInfo := card\<lparr>ProcessedAt := 100\<rparr>\<rparr>)
   \<and> fst (orderRepository_UpdateOrderStatus None 200 ''o-2'' ORDER_STATUS_PROCESSING one_order_db)
     = Some ErrNoRows
   \<and> snd (orderRepository_UpdateOrderStatus None 200 ''o-2'' ORDER_STATUS_PROCESSING one_order_db)
     = one_order_db"
proof -
  have ok: "fst (orderRepository_UpdateOrderStatus None 200 ''o-1'' ORDER_STATUS_PROCESSING
              one_order_db) = None"
    by (simp add: orderRepository_UpdateOrderStatus_def Let_def RowsAffected_def set_status_def
        one_order_db_def rows_added_def empty_db_def header_row_def example_order_def)
  have before: "orderRepository_GetOrder no_faults ''o-1'' one_order_db
                  = Inr (example_order\<lparr>CreatedAt := 100, UpdatedAt := 100,
                           PaymentInfo := card\<lparr>ProcessedAt := 100\<rparr>\<rparr>)"
    by (simp add: orderRepository_GetOrder_def Let_def QueryRow_def Query_def no_faults_def
        one_order_db_def rows_added_def empty_db_def header_row_def item_row_of_def
        payment_row_of_def shipping_row_of_def example_order_def three_items_def)
  have missing: "\<forall>x \<in> set (orders (committed one_order_db)). or_id x \<noteq> ''o-2''"
    by (simp add: one_order_db_def rows_added_def empty_db_def header_row_def example_order_def)
  from UpdateOrderStatus_frame [of None 200 "''o-1''" ORDER_STATUS_PROCESSING one_order_db]
    UpdateOrderStatus_frame [of None 200 "''o-2''" ORDER_STATUS_PROCESSING one_order_db]
    ok before missing
  show ?thesis by (simp add: Let_def)
qed

subsection \<open>Reading an order\<close>

lemma QueryRow_no_fault_cases:
  "QueryRow None rows = (case rows of [] \<Rightarrow> Inl ErrNoRows | r # _ \<Rightarrow> Inr r)"
  by (simp add: QueryRow_def)

text \<open>
  C7, as the code has it. When no round trip of the read fails, \<open>GetOrder\<close> of the
  repository returns \<^verbatim>\<open>sql.ErrNoRows\<close> exactly when the header row, the payment row or the
  shipping row of the order is missing, and the handler answers NotFound,
  \<open>order not found\<close>, in exactly these cases: a missing payment or shipping row is
  reported like a missing order.
\<close>

theorem GetOrder_missing_rows:
  assumes "\<forall>k<4. env_faults env k = None"
  shows "(orderRepository_GetOrder (env_faults env) oid db = Inl ErrNoRows \<longleftrightarrow>
            filter (\<lambda>r. or_id r = oid) (orders (committed db)) = []
          \<or> filter (\<lambda>r. pr_order_id r = oid) (payment_info (committed db)) = []
          \<or> filter (\<lambda>r. sr_order_id r = oid) (shipping_info (committed db)) = [])
       \<and> (fst (OrderHandler_GetOrder env oid db) = Inl (StatusErr NotFound ''order not found'') \<longleftrightarrow>
            filter (\<lambda>r. or_id r = oid) (orders (committed db)) = []
          \<or> filter (\<lambda>r. pr_order_id r = oid) (payment_info (committed db)) = []
          \<or> filter (\<lambda>r. sr_order_id r = oid) (shipping_info (committed db)) = [])"
proof -
  from assms have f: "env_faults env 0 = None" "env_faults env 1 = None"
    "env_faults env 2 = None" "env_faults env 3 = None"
    by simp_all
  have repo: "orderRepository_GetOrder (env_faults env) oid db = Inl ErrNoRows \<longleftrightarrow>
            filter (\<lambda>r. or_id r = oid) (orders (committed db)) = []
          \<or> filter (\<lambda>r. pr_order_id r = oid) (payment_info (committed db)) = []
          \<or> filter (\<lambda>r. sr_order_id r = oid) (shipping_info (committed db)) = []"
    using f
    by (simp add: orderRepository_GetOrder_def Let_def QueryRow_no_fault_cases Query_def
        split: list.splits)
  have handler: "fst (OrderHandler_GetOrder env oid db) = Inl (StatusErr NotFound ''order not found'')
         \<longleftrightarrow> orderRepository_GetOrder (env_faults env) oid db = Inl ErrNoRows"
    by (simp add: OrderHandler_GetOrder_def split: sum.splits)
  from repo handler show ?thesis by simp
qed

text \<open>
  On the database holding the order \<open>o-1\<close> whole: \<open>o-1\<close> is found and \<open>o-2\<close> is not.
\<close>

theorem GetOrder_missing_rows_witness:
  "fst (OrderHandler_GetOrder (example_env no_faults) ''o-2'' one_order_db)
     = Inl (StatusErr NotFound ''order not found'')
   \<and> orderRepository_GetOrder no_faults ''o-1'' one_order_db \<noteq> Inl ErrNoRows"
proof -
  have h: "\<forall>k<4. env_faults (example_env no_faults) k = None"
    by (simp add: example_env_def no_faults_def)
  have e: "env_faults (example_env no_faults) = no_faults"
    by (simp add: example_env_def)
  have rows: "filter (\<lambda>r. or_id r = ''o-2'') (orders (committed one_order_db)) = []"
    "filter (\<lambda>r. or_id r = ''o-1'') (orders (committed one_order_db)) \<noteq> []"
    "filter (\<lambda>r. pr_order_id r = ''o-1'') (payment_info (committed one_order_db)) \<noteq> []"
    "filter (\<lambda>r. sr_order_id r = ''o-1'') (shipping_info (committed one_order_db)) \<noteq> []"
    by (simp_all add: one_order_db_def rows_added_def empty_db_def header_row_def
        payment_row_of_def shipping_row_of_def example_order_def)
  from GetOrder_missing_rows [OF h, of "''o-2''" one_order_db]
    GetOrder_missing_rows [OF h, of "''o-1''" one_order_db] rows e
  show ?thesis by simp
qed

text \<open>
  The claim as stated fails: the order \<open>o-1\<close> has its header row and no payment row,
  and the handler answers NotFound, \<open>order not found\<close>, the very answer it gives for an
  order that does not exist.
\<close>

theorem GetOrder_missing_payment_is_NotFound:
  "filter (\<lambda>r. or_id r = ''o-1'') (orders (committed header_only_db)) \<noteq> []
   \<and> filter (\<lambda>r. pr_order_id r = ''o-1'') (payment_info (committed header_only_db)) = []
   \<and> orderRepository_GetOrder no_faults ''o-1'' header_only_db = Inl ErrNoRows
   \<and> OrderHandler_GetOrder (example_env no_faults) ''o-1'' header_only_db
       = (Inl (StatusErr NotFound ''order not found''), [])
   \<and> OrderHandler_GetOrder (example_env no_faults) ''o-1'' empty_db
       = (Inl (StatusErr NotFound ''order not found''), [])"
  by (simp add: OrderHandler_GetOrder_def orderRepository_GetOrder_def Let_def QueryRow_def
      Query_def no_faults_def example_env_def header_only_db_def empty_db_def header_row_def
      example_order_def)

subsection \<open>Listing orders\<close>

text \<open>
  C8, evaluated on the code. Three orders of one user exist and the first page of size 1
  is asked for: the repository returns the newest order, \<open>o-3\<close>, and the empty
  continuation token, and so does the handler. The token is empty whatever the call.
\<close>

theorem ListOrders_never_continues:
  "map_sum (\<lambda>e. e) (\<lambda>(page, tok). (map ID page, map CreatedAt page, tok))
     (orderRepository_ListOrders no_faults ''U1'' ORDER_STATUS_PENDING 1 [] three_orders_db)
   = Inr ([''o-3''], [300], [])
   \<and> map_sum (\<lambda>e. e) (\<lambda>(answer, tok). (map pb_Id answer, tok))
       (fst (OrderHandler_ListOrders (example_env no_faults) ''U1'' ORDER_STATUS_PENDING 1 []
          three_orders_db))
   = Inr ([''o-3''], [])
   \<and> (case orderRepository_ListOrders faults userID status pageSize pageToken db of
        Inl err \<Rightarrow> True
      | Inr (page, nextPageToken) \<Rightarrow> nextPageToken = [])"
proof -
  have a: "map_sum (\<lambda>e. e) (\<lambda>(page, tok). (map ID page, map CreatedAt page, tok))
     (orderRepository_ListOrders no_faults ''U1'' ORDER_STATUS_PENDING 1 [] three_orders_db)
   = Inr ([''o-3''], [300], [])"
    by (simp add: orderRepository_ListOrders_def Let_def select_page_def page_offset_def
      Query_def QueryRow_def no_faults_def three_orders_db_def rows_added_def empty_db_def
      header_row_def payment_row_of_def shipping_row_of_def item_row_of_def order_no_def
      example_order_def three_items_def scan_header_def)
  have b: "map_sum (\<lambda>e. e) (\<lambda>(answer, tok). (map pb_Id answer, tok))
       (fst (OrderHandler_ListOrders (example_env no_faults) ''U1'' ORDER_STATUS_PENDING 1 []
          three_orders_db))
   = Inr ([''o-3''], [])"
    by (simp add: OrderHandler_ListOrders_def OrderHandler_ListOrders_repo_def example_env_def
      directory_def
      convertToProtoOrder_def
      orderRepository_ListOrders_def Let_def select_page_def page_offset_def
      Query_def QueryRow_def no_faults_def three_orders_db_def rows_added_def empty_db_def
      header_row_def payment_row_of_def shipping_row_of_def item_row_of_def order_no_def
      example_order_def three_items_def scan_header_def)
  have c: "(case orderRepository_ListOrders faults userID status pageSize pageToken db of
        Inl err \<Rightarrow> True
      | Inr (page, nextPageToken) \<Rightarrow> nextPageToken = [])"
    by (auto simp: orderRepository_ListOrders_def Let_def split: sum.splits option.splits)
  from a b c show ?thesis by blast
qed

text \<open>
  C10. Whatever page the repository returns, the handler asks the user directory exactly
  once if the page is not empty, for the user of the first order, and not at all if it is
  empty; an answer that succeeds carries that one snapshot on every order, whatever the
  order's own user and whatever user the request names, and the orders and the token of
  the page otherwise unchanged. The handler of the server is this one on the MySQL
  repository.
\<close>

theorem ListOrders_user_snapshot:
  assumes "listOrders userId status pageSize pageToken = Inr (page, tok)"
  shows "(page = [] \<longrightarrow>
            OrderHandler_ListOrders_repo listOrders env userId status pageSize pageToken
              = (Inr ([], tok), []))
       \<and> (page \<noteq> [] \<longrightarrow>
            snd (OrderHandler_ListOrders_repo listOrders env userId status pageSize pageToken)
              = [UserID (hd page)])
       \<and> (\<forall>answer tok'.
            page \<noteq> [] \<and>
            fst (OrderHandler_ListOrders_repo listOrders env userId status pageSize pageToken)
              = Inr (answer, tok') \<longrightarrow>
            (\<exists>user. env_GetUser env (UserID (hd page)) = Inr user
               \<and> map pb_User answer = replicate (length page) (Some user))
            \<and> map pb_Id answer = map ID page
            \<and> map pb_UserId answer = map UserID page
            \<and> tok' = tok)
       \<and> (\<forall>user. page \<noteq> [] \<and> env_GetUser env (UserID (hd page)) = Inr user \<longrightarrow>
            fst (OrderHandler_ListOrders_repo listOrders env userId status pageSize pageToken)
              = Inr (map (\<lambda>order. convertToProtoOrder order (Some user)) page, tok))
       \<and> (\<forall>e. page \<noteq> [] \<and> env_GetUser env (UserID (hd page)) = Inl e \<longrightarrow>
            fst (OrderHandler_ListOrders_repo listOrders env userId status pageSize pageToken)
              = Inl (StatusErr Internal ''failed to get user details''))
       \<and> OrderHandler_ListOrders env userId status pageSize pageToken db
           = OrderHandler_ListOrders_repo
               (\<lambda>u s n t. orderRepository_ListOrders (env_faults env) u s n t db)
               env userId status pageSize pageToken"
proof (cases page)
  case Nil
  with assms show ?thesis
    by (simp add: OrderHandler_ListOrders_repo_def OrderHandler_ListOrders_def)
next
  case (Cons first others)
  show ?thesis
  proof (cases "env_GetUser env (UserID first)")
    case (Inl e)
    with assms Cons show ?thesis
      by (simp add: OrderHandler_ListOrders_repo_def OrderHandler_ListOrders_def)
  next
    case (Inr user)
    have u: "map pb_User (map (\<lambda>order. convertToProtoOrder order (Some user)) others)
               = replicate (length others) (Some user)"
      by (induction others) (simp_all add: convertToProtoOrder_def)
    have i: "map pb_Id (map (\<lambda>order. convertToProtoOrder order (Some user)) others) = map ID others"
      and ui: "map pb_UserId (map (\<lambda>order. convertToProtoOrder order (Some user)) others)
                 = map UserID others"
      by (simp_all add: convertToProtoOrder_def)
    from assms Cons Inr u i ui show ?thesis
      by (auto simp: OrderHandler_ListOrders_repo_def OrderHandler_ListOrders_def
          convertToProtoOrder_def)
  qed
qed

text \<open>
  The request names the user \<open>U9\<close> and the page holds an order of \<open>U1\<close> and then an
  order of \<open>U9\<close>: the one lookup is for \<open>U1\<close>, and both orders of the answer, the one
  of \<open>U9\<close> too, carry the snapshot of \<open>U1\<close>. On the empty page there is no lookup.
\<close>

theorem ListOrders_user_snapshot_witness:
  "snd (OrderHandler_ListOrders_repo mixed_repo (example_env no_faults) ''U9''
          ORDER_STATUS_PENDING 2 []) = [''U1'']
   \<and> map_sum (\<lambda>e. e) (\<lambda>(answer, tok). (map pb_UserId answer, map pb_User answer, tok))
       (fst (OrderHandler_ListOrders_repo mixed_repo (example_env no_faults) ''U9''
          ORDER_STATUS_PENDING 2 []))
     = Inr ([''U1'', ''U9''], [Some user_U1, Some user_U1], ''next'')
   \<and> OrderHandler_ListOrders_repo empty_repo (example_env no_faults) ''U9''
          ORDER_STATUS_PENDING 2 [] = (Inr ([], []), [])"
proof -
  have l: "mixed_repo ''U9'' ORDER_STATUS_PENDING 2 [] = Inr (mixed_page, ''next'')"
    by (simp add: mixed_repo_def)
  have le: "empty_repo ''U9'' ORDER_STATUS_PENDING 2 [] = Inr ([], [])"
    by (simp add: empty_repo_def)
  have ne: "mixed_page \<noteq> []" and hd: "UserID (hd mixed_page) = ''U1''"
    and users: "map UserID mixed_page = [''U1'', ''U9'']"
    by (simp_all add: mixed_page_def example_order_def)
  have u: "env_GetUser (example_env no_faults) (UserID (hd mixed_page)) = Inr user_U1"
    unfolding hd by (simp add: example_env_def directory_def)
  note T = ListOrders_user_snapshot [where listOrders = mixed_repo and userId = "''U9''"
      and status = ORDER_STATUS_PENDING and pageSize = 2 and pageToken = "[]"
      and page = mixed_page and tok = "''next''" and env = "example_env no_faults"
      and db = empty_db, OF l]
  note E = ListOrders_user_snapshot [where listOrders = empty_repo and userId = "''U9''"
      and status = ORDER_STATUS_PENDING and pageSize = 2 and pageToken = "[]"
      and page = "[]" and tok = "[]" and env = "example_env no_faults"
      and db = empty_db, OF le]
  from T [THEN conjunct2, THEN conjunct1] ne
  have "snd (OrderHandler_ListOrders_repo mixed_repo (example_env no_faults) ''U9''
          ORDER_STATUS_PENDING 2 []) = [UserID (hd mixed_page)]"
    by blast
  then have s: "snd (OrderHandler_ListOrders_repo mixed_repo (example_env no_faults) ''U9''
          ORDER_STATUS_PENDING 2 []) = [''U1'']"
    unfolding hd .
  from T [THEN conjunct2, THEN conjunct2, THEN conjunct2, THEN conjunct1, rule_format,
      of user_U1] ne u
  have f: "fst (OrderHandler_ListOrders_repo mixed_repo (example_env no_faults) ''U9''
          ORDER_STATUS_PENDING 2 [])
        = Inr (map (\<lambda>order. convertToProtoOrder order (Some user_U1)) mixed_page, ''next'')"
    by blast
  have a: "map pb_UserId (map (\<lambda>order. convertToProtoOrder order (Some user_U1)) mixed_page)
          = [''U1'', ''U9'']"
    using users by (simp add: mixed_page_def convertToProtoOrder_def)
  have b: "map pb_User (map (\<lambda>order. convertToProtoOrder order (Some user_U1)) mixed_page)
          = [Some user_U1, Some user_U1]"
    by (simp add: mixed_page_def convertToProtoOrder_def)
  from E [THEN conjunct1]
  have e: "OrderHandler_ListOrders_repo empty_repo (example_env no_faults) ''U9''
          ORDER_STATUS_PENDING 2 [] = (Inr ([], []), [])"
    by blast
  from a b e show ?thesis unfolding s f by simp
qed

subsection \<open>The total amount\<close>

lemma times_float64_commute: "(x :: float64) * y = y * x"
  by (cases x; cases y) (simp_all add: mult.commute)

lemma service_total_handler_total:
  "service_total float64_of_int32 acc items = handler_total float64_of_int32 acc items"
  by (induction items arbitrary: acc) (simp_all add: times_float64_commute)

lemma handler_total_unrounded:
  "unrounded acc items \<Longrightarrow>
     handler_total float64_of_int32 (Finite acc) items = Finite (acc + exact_sum items)"
proof (induction items arbitrary: acc)
  case Nil
  then show ?case by (simp add: exact_sum_def)
next
  case (Cons item rest)
  from Cons.prems obtain p where p: "UnitPrice item = Finite p"
    and m: "round64 (of_int (Quantity item) * p) = Finite (of_int (Quantity item) * p)"
    and a: "round64 (acc + of_int (Quantity item) * p) = Finite (acc + of_int (Quantity item) * p)"
    and r: "unrounded (acc + of_int (Quantity item) * p) rest"
    by (auto split: float64.splits)
  from m have m': "round64 (p * of_int (Quantity item)) = Finite (of_int (Quantity item) * p)"
    by (simp add: mult.commute)
  have "handler_total float64_of_int32 (Finite acc) (item # rest)
          = handler_total float64_of_int32 (Finite (acc + of_int (Quantity item) * p)) rest"
    by (simp add: p float64_of_int32_def m' a)
  also have "\<dots> = Finite (acc + of_int (Quantity item) * p + exact_sum rest)"
    by (rule Cons.IH [OF r])
  finally show ?case by (simp add: exact_sum_def p value_of_def add.assoc)
qed

text \<open>
  C6, as the code has it. The total is the float64 the loop computes from the item list
  alone: starting at zero it adds, item by item, the product of the quantity and the unit
  price. When no product and no partial sum is rounded, it is the exact sum of quantity
  times unit price. The loop of the service and the loop of the handler compute the same
  float64. Whenever the handler answers with an order, the answer and the committed
  header row carry that total, and it does answer when the user is found, the request
  has a shipping address and no round trip fails; whenever the service answers with an
  order, the answer, which is the order handed to the repository, carries that total, and
  it does answer when the request is valid, the user is found and the repository accepts
  the order.
\<close>

theorem CreateOrder_total_float64:
  "(unrounded 0 items \<longrightarrow>
      handler_total float64_of_int32 0 items = Finite (exact_sum items))
   \<and> service_total float64_of_int32 0 items = handler_total float64_of_int32 0 items
   \<and> (\<forall>answer db' calls.
         OrderHandler_CreateOrder float64_of_int32 env req db = (Inr answer, db', calls) \<longrightarrow>
         pb_TotalAmount answer = handler_total float64_of_int32 0 (req_Items req)
         \<and> orders (committed db') \<noteq> []
         \<and> or_total_amount (last (orders (committed db')))
             = handler_total float64_of_int32 0 (req_Items req)
         \<and> or_id (last (orders (committed db'))) = pb_Id answer)
   \<and> (\<forall>user sh.
         env_GetUser env (req_UserId req) = Inr user \<and> req_ShippingInfo req = Some sh
         \<and> (\<forall>k \<le> length (req_Items req) + 4. env_faults env k = None) \<longrightarrow>
         (\<exists>db'. OrderHandler_CreateOrder float64_of_int32 env req db
                  = (Inr (convertToProtoOrder (new_order float64_of_int32 env req sh) (Some user)),
                     db', [req_UserId req])))
   \<and> (\<forall>answer calls.
         OrderService_CreateOrder float64_of_int32 env repo req = (Inr answer, calls) \<longrightarrow>
         pb_TotalAmount answer = handler_total float64_of_int32 0 (req_Items req)
         \<and> calls = [Call_GetUser (req_UserId req), Call_CreateOrder True answer])
   \<and> (\<forall>user.
         validateCreateOrderRequest req = None \<and> env_GetUser env (req_UserId req) = Inr user
         \<and> repo_CreateOrder repo True (service_order float64_of_int32 env req user) = None \<longrightarrow>
         fst (OrderService_CreateOrder float64_of_int32 env repo req)
           = Inr (service_order float64_of_int32 env req user))"
proof -
  have c1: "unrounded 0 items \<longrightarrow>
      handler_total float64_of_int32 0 items = Finite (exact_sum items)"
    using handler_total_unrounded [of 0 items] by (simp add: zero_float64_def)
  have c2: "service_total float64_of_int32 0 items = handler_total float64_of_int32 0 items"
    by (rule service_total_handler_total)
  have c3: "pb_TotalAmount answer = handler_total float64_of_int32 0 (req_Items req)
         \<and> orders (committed db') \<noteq> []
         \<and> or_total_amount (last (orders (committed db')))
             = handler_total float64_of_int32 0 (req_Items req)
         \<and> or_id (last (orders (committed db'))) = pb_Id answer"
    if "OrderHandler_CreateOrder float64_of_int32 env req db = (Inr answer, db', calls)"
    for answer db' calls
  proof -
    from that obtain user sh where
      ok: "orderRepository_CreateOrder (env_faults env) (\<lambda>k. env_uuid env (k + 2)) (env_NOW env)
             (new_order float64_of_int32 env req sh) db = (None, db')"
      and a: "answer = convertToProtoOrder (new_order float64_of_int32 env req sh) (Some user)"
      by (auto simp: OrderHandler_CreateOrder_def Let_def
          split: sum.splits option.splits prod.splits if_splits)
    from CreateOrder_success [OF ok]
    have "committed db' = rows_added (\<lambda>k. env_uuid env (k + 2)) (env_NOW env)
             (new_order float64_of_int32 env req sh) (committed db)"
      by simp
    then show ?thesis
      by (simp add: a rows_added_def header_row_def convertToProtoOrder_def new_order_def)
  qed
  have c4: "\<exists>db'. OrderHandler_CreateOrder float64_of_int32 env req db
                  = (Inr (convertToProtoOrder (new_order float64_of_int32 env req sh) (Some user)),
                     db', [req_UserId req])"
    if u: "env_GetUser env (req_UserId req) = Inr user" and sh: "req_ShippingInfo req = Some sh"
      and f: "\<forall>k \<le> length (req_Items req) + 4. env_faults env k = None"
    for user sh
  proof -
    have n: "length (Items (new_order float64_of_int32 env req sh)) = length (req_Items req)"
      by (simp add: new_order_def)
    from f have "\<forall>k \<le> length (Items (new_order float64_of_int32 env req sh)) + 4.
                   env_faults env k = None"
      unfolding n .
    from CreateOrder_no_fault [OF this, of "\<lambda>k. env_uuid env (k + 2)" "env_NOW env" db]
    obtain db' where "orderRepository_CreateOrder (env_faults env) (\<lambda>k. env_uuid env (k + 2))
             (env_NOW env) (new_order float64_of_int32 env req sh) db = (None, db')"
      by (metis prod.collapse)
    with u sh show ?thesis by (simp add: OrderHandler_CreateOrder_def Let_def)
  qed
  have c5: "pb_TotalAmount answer = handler_total float64_of_int32 0 (req_Items req)
         \<and> calls = [Call_GetUser (req_UserId req), Call_CreateOrder True answer]"
    if "OrderService_CreateOrder float64_of_int32 env repo req = (Inr answer, calls)"
    for answer calls
    using that
    by (auto simp: OrderService_CreateOrder_def Let_def service_order_def
        service_total_handler_total
        split: sum.splits option.splits prod.splits)
  have c6: "fst (OrderService_CreateOrder float64_of_int32 env repo req)
           = Inr (service_order float64_of_int32 env req user)"
    if "validateCreateOrderRequest req = None" "env_GetUser env (req_UserId req) = Inr user"
      "repo_CreateOrder repo True (service_order float64_of_int32 env req user) = None"
    for user
    using that by (simp add: OrderService_CreateOrder_def Let_def)
  from c1 c2 c3 c4 c5 c6 show ?thesis by blast
qed

text \<open>The values of \<open>round64\<close> the examples need.\<close>

lemma round64_values:
  "round64 10000000000000000 = Finite 10000000000000000"
  "round64 10000000000000001 = Finite 10000000000000000"
  "round64 1 = Finite 1"
  "round64 10 = Finite 10"
  "round64 20 = Finite 20"
  "round64 (3602879701896397 / 36028797018963968) = Finite (3602879701896397 / 36028797018963968)"
  "round64 (10808639105689191 / 36028797018963968) = Finite (1351079888211149 / 4503599627370496)"
  "round64 (1351079888211149 / 4503599627370496) = Finite (1351079888211149 / 4503599627370496)"
  by code_simp+

text \<open>
  Two units at 10: nothing is rounded, the total is 20, and the handler and the service
  both answer with an order that carries it.
\<close>

theorem CreateOrder_total_float64_witness:
  "handler_total float64_of_int32 0 [fsku ''sku-1'' 2 (Finite 10)] = Finite 20
   \<and> exact_sum [fsku ''sku-1'' 2 (Finite 10)] = 20
   \<and> map_sum (\<lambda>e. e) pb_TotalAmount
       (fst (OrderHandler_CreateOrder float64_of_int32 (example_env no_faults)
               (float_request ''U1'' [fsku ''sku-1'' 2 (Finite 10)]) empty_float_db))
     = Inr (Finite 20)
   \<and> or_total_amount (last (orders (committed (fst (snd
        (OrderHandler_CreateOrder float64_of_int32 (example_env no_faults)
               (float_request ''U1'' [fsku ''sku-1'' 2 (Finite 10)]) empty_float_db))))))
     = Finite 20
   \<and> map_sum (\<lambda>e. e) pb_TotalAmount
       (fst (OrderService_CreateOrder float64_of_int32 (example_env no_faults) accepting_repo
               (float_request ''U1'' [fsku ''sku-1'' 2 (Finite 10)])))
     = Inr (Finite 20)"
proof -
  let ?items = "[fsku ''sku-1'' 2 (Finite 10)]"
  let ?env = "example_env no_faults"
  let ?req = "float_request ''U1'' ?items"
  let ?H = "OrderHandler_CreateOrder float64_of_int32 ?env ?req empty_float_db"
  let ?S = "OrderService_CreateOrder float64_of_int32 ?env accepting_repo ?req"
  note T = CreateOrder_total_float64 [of ?items ?env ?req empty_float_db accepting_repo]
  have items: "req_Items ?req = ?items" by (simp add: float_request_def)
  have un: "unrounded 0 ?items"
    by (simp add: fsku_def round64_values)
  have sum: "exact_sum ?items = 20"
    by (simp add: exact_sum_def fsku_def value_of_def)
  from T [THEN conjunct1] un sum
  have total: "handler_total float64_of_int32 0 ?items = Finite 20"
    by simp
  have user: "env_GetUser ?env (req_UserId ?req) = Inr user_U1"
    and ship: "req_ShippingInfo ?req = Some home"
    and nf: "\<forall>k \<le> length (req_Items ?req) + 4. env_faults ?env k = None"
    by (simp_all add: example_env_def directory_def float_request_def no_faults_def)
  from T [THEN conjunct2, THEN conjunct2, THEN conjunct2, THEN conjunct1, rule_format,
      of user_U1 home] user ship nf
  obtain db' where H: "?H = (Inr (convertToProtoOrder (new_order float64_of_int32 ?env ?req home)
                                    (Some user_U1)), db', [req_UserId ?req])"
    by blast
  from T [THEN conjunct2, THEN conjunct2, THEN conjunct1, rule_format, OF H]
  have h1: "pb_TotalAmount (convertToProtoOrder (new_order float64_of_int32 ?env ?req home)
                              (Some user_U1)) = Finite 20"
    and h2: "or_total_amount (last (orders (committed db'))) = Finite 20"
    unfolding items total by blast+
  have valid: "validateCreateOrderRequest ?req = None"
    by (simp add: validateCreateOrderRequest_def float_request_def fsku_def zero_float64_def)
  have accepts: "repo_CreateOrder accepting_repo True
                   (service_order float64_of_int32 ?env ?req user_U1) = None"
    by (simp add: accepting_repo_def)
  from T [THEN conjunct2, THEN conjunct2, THEN conjunct2, THEN conjunct2, THEN conjunct2,
      rule_format, of user_U1] valid user accepts
  have S: "fst ?S = Inr (service_order float64_of_int32 ?env ?req user_U1)"
    by blast
  then have "?S = (Inr (service_order float64_of_int32 ?env ?req user_U1), snd ?S)"
    by (metis prod.collapse)
  from T [THEN conjunct2, THEN conjunct2, THEN conjunct2, THEN conjunct2, THEN conjunct1,
      rule_format, OF this]
  have s1: "pb_TotalAmount (service_order float64_of_int32 ?env ?req user_U1) = Finite 20"
    unfolding items total by blast
  from total sum h1 h2 s1 show ?thesis unfolding H S by simp
qed

text \<open>
  The claim as stated fails. The prices \<open>10 ^ 16\<close> and 1 are float64 values and the
  request is valid, the exact sum of one unit of each is \<open>10 ^ 16 + 1\<close>, and the total
  of the order the handler answers with, and of the one the service answers with, is
  \<open>10 ^ 16\<close>. Three units at a tenth (the float64 nearest to it) come to a total that
  is not three times the price.
\<close>

theorem CreateOrder_total_rounds:
  "validateCreateOrderRequest (float_request ''U1'' big_items) = None
   \<and> map UnitPrice big_items = [round64 10000000000000000, round64 1]
   \<and> exact_sum big_items = 10000000000000001
   \<and> map_sum (\<lambda>e. e) pb_TotalAmount
       (fst (OrderHandler_CreateOrder float64_of_int32 (example_env no_faults)
               (float_request ''U1'' big_items) empty_float_db))
     = Inr (Finite 10000000000000000)
   \<and> map_sum (\<lambda>e. e) pb_TotalAmount
       (fst (OrderService_CreateOrder float64_of_int32 (example_env no_faults) accepting_repo
               (float_request ''U1'' big_items)))
     = Inr (Finite 10000000000000000)
   \<and> exact_sum dime_items = 10808639105689191 / 36028797018963968
   \<and> handler_total float64_of_int32 0 dime_items
     = Finite (1351079888211149 / 4503599627370496)"
proof -
  have v: "validateCreateOrderRequest (float_request ''U1'' big_items) = None"
    by (simp add: validateCreateOrderRequest_def float_request_def big_items_def fsku_def
        zero_float64_def)
  have p: "map UnitPrice big_items = [round64 10000000000000000, round64 1]"
    by (simp add: big_items_def fsku_def round64_values)
  have e: "exact_sum big_items = 10000000000000001"
    by (simp add: exact_sum_def big_items_def fsku_def value_of_def)
  have t: "handler_total float64_of_int32 0 big_items = Finite 10000000000000000"
    by (simp add: big_items_def fsku_def float64_of_int32_def zero_float64_def round64_values)
  have h: "map_sum (\<lambda>e. e) pb_TotalAmount
       (fst (OrderHandler_CreateOrder float64_of_int32 (example_env no_faults)
               (float_request ''U1'' big_items) empty_float_db))
     = Inr (handler_total float64_of_int32 0 big_items)"
    by (simp add: OrderHandler_CreateOrder_def example_env_def directory_def
        float_request_def new_order_def orderRepository_CreateOrder_def Let_def BeginTx_def
        tx_ExecContext_def tx_Commit_def no_faults_def empty_float_db_def
        convertToProtoOrder_def big_items_def fsku_def)
  have s: "map_sum (\<lambda>e. e) pb_TotalAmount
       (fst (OrderService_CreateOrder float64_of_int32 (example_env no_faults) accepting_repo
               (float_request ''U1'' big_items)))
     = Inr (handler_total float64_of_int32 0 big_items)"
    using v
    by (simp add: OrderService_CreateOrder_def example_env_def directory_def
        float_request_def service_order_def accepting_repo_def Let_def
        service_total_handler_total)
  have d: "exact_sum dime_items = 10808639105689191 / 36028797018963968"
    by (simp add: exact_sum_def dime_items_def fsku_def value_of_def)
  have dt: "handler_total float64_of_int32 0 dime_items
     = Finite (1351079888211149 / 4503599627370496)"
    by (simp add: dime_items_def fsku_def float64_of_int32_def zero_float64_def round64_values)
  from v p e h s d dt show ?thesis unfolding t by blast
qed

subsection \<open>Creating an order for an unknown user\<close>

text \<open>
  When the user directory answers the lookup with an error, the handler returns
  InvalidArgument, \<open>user not found\<close>, if the code of the error is NotFound, and Internal
  otherwise, and leaves the database as it was; the service, once the request has passed
  validation, returns Internal whatever the code and has called nothing but the user
  directory, so its repository is untouched.
\<close>

lemma CreateOrder_lookup_error:
  assumes "env_GetUser env (req_UserId req) = Inl (code, text)"
  shows "OrderHandler_CreateOrder float64 env req db
           = (Inl (if code = NotFound then StatusErr InvalidArgument ''user not found''
                   else StatusErr Internal ''failed to verify user''),
              db, [req_UserId req])
       \<and> (validateCreateOrderRequest req = None \<longrightarrow>
            OrderService_CreateOrder float64 env repo req
              = (Inl (StatusErr Internal (''failed to get user details: '' @ text)),
                 [Call_GetUser (req_UserId req)]))"
  using assms by (simp add: OrderHandler_CreateOrder_def OrderService_CreateOrder_def)

text \<open>
  C4, evaluated on the code. The user \<open>invalid-user-id\<close> does not exist: the directory
  answers the lookup with NotFound. The request is valid. The service answers Internal,
  the handler answers InvalidArgument, and neither answers NotFound. Nothing is written:
  the service has called the user directory only, and the handler leaves the database
  with its one order as it was.
\<close>

theorem CreateOrder_unknown_user_not_NotFound:
  "env_GetUser (example_env no_faults) ''invalid-user-id''
     = Inl (NotFound, ''rpc error: code = NotFound desc = user not found'')
   \<and> validateCreateOrderRequest (example_request ''invalid-user-id'' three_items) = None
   \<and> OrderService_CreateOrder real_of_int (example_env no_faults) mock_repo
         (example_request ''invalid-user-id'' three_items)
       = (Inl (StatusErr Internal
            ''failed to get user details: rpc error: code = NotFound desc = user not found''),
          [Call_GetUser ''invalid-user-id''])
   \<and> OrderHandler_CreateOrder real_of_int (example_env no_faults)
         (example_request ''invalid-user-id'' three_items) one_order_db
       = (Inl (StatusErr InvalidArgument ''user not found''), one_order_db,
          [''invalid-user-id''])"
  by (simp add: OrderHandler_CreateOrder_def OrderService_CreateOrder_def example_env_def
      directory_def example_request_def validateCreateOrderRequest_def three_items_def sku_def)

subsection \<open>Validation of a creation request\<close>

lemma validate_items_replicate:
  "validate_items (replicate n item) = (if n = 0 then None else validate_items [item])"
  by (induction n) auto

text \<open>
  C5, evaluated on the code. \<open>validateCreateOrderRequest\<close> accepts an item of quantity
  101 and a list of 101 items, and the handler, which validates nothing, commits an order
  with no item and an order whose item has quantity 0.
\<close>

theorem validateCreateOrderRequest_no_upper_bounds:
  "validateCreateOrderRequest (example_request ''U1'' [sku ''sku-1'' 101 10]) = None
   \<and> validateCreateOrderRequest (example_request ''U1'' (replicate 101 (sku ''sku-1'' 1 10))) = None
   \<and> length (req_Items (example_request ''U1'' (replicate 101 (sku ''sku-1'' 1 10)))) = 101
   \<and> map_sum (\<lambda>e. e) (\<lambda>answer. length (pb_Items answer))
       (fst (OrderHandler_CreateOrder real_of_int (example_env no_faults)
               (example_request ''U1'' []) empty_db)) = Inr 0
   \<and> map_sum (\<lambda>e. e) (\<lambda>answer. map Quantity (pb_Items answer))
       (fst (OrderHandler_CreateOrder real_of_int (example_env no_faults)
               (example_request ''U1'' [sku ''sku-1'' 0 10]) empty_db)) = Inr [0]"
  by (simp add: validateCreateOrderRequest_def example_request_def sku_def
      validate_items_replicate
      OrderHandler_CreateOrder_def example_env_def directory_def
        new_order_def orderRepository_CreateOrder_def Let_def BeginTx_def
        tx_ExecContext_def tx_Commit_def no_faults_def empty_db_def convertToProtoOrder_def
        copy_item_def)

subsection \<open>Changing the status of an order\<close>

text \<open>
  C3, evaluated on the code. The handler never consults the transition table: the order
  \<open>o-1\<close> is completed, the move to processing is not allowed, and the handler writes
  it and answers with the order in processing. The service does consult the table
  (the move from pending to completed is refused before any write), but has no NotFound:
  an order its repository does not have is a nil pointer dereference or, when the
  repository reports an error, Internal; and an allowed move ends without any call to the
  user directory.
\<close>

theorem UpdateOrderStatus_paths:
  "\<not> isValidStatusTransition ORDER_STATUS_COMPLETED ORDER_STATUS_PROCESSING
   \<and> map or_status (orders (committed completed_db)) = [ORDER_STATUS_COMPLETED]
   \<and> map_sum (\<lambda>e. e) pb_Status
       (fst (OrderHandler_UpdateOrderStatus (example_env no_faults) ''o-1''
               ORDER_STATUS_PROCESSING completed_db)) = Inr ORDER_STATUS_PROCESSING
   \<and> map or_status (orders (committed (fst (snd
         (OrderHandler_UpdateOrderStatus (example_env no_faults) ''o-1''
               ORDER_STATUS_PROCESSING completed_db))))) = [ORDER_STATUS_PROCESSING]
   \<and> OrderService_UpdateOrderStatus (example_env no_faults) mock_repo ''o-2''
         ORDER_STATUS_PROCESSING = (Inl NilPointerPanic, [Call_GetOrder ''o-2''])
   \<and> OrderService_UpdateOrderStatus (example_env no_faults)
         (mock_repo\<lparr>repo_GetOrder := \<lambda>oid. Inl ''no rows in result set''\<rparr>) ''o-2''
         ORDER_STATUS_PROCESSING
       = (Inl (StatusErr Internal ''failed to get order''), [Call_GetOrder ''o-2''])
   \<and> OrderService_UpdateOrderStatus (example_env no_faults) mock_repo ''o-1''
         ORDER_STATUS_COMPLETED
       = (Inl (StatusErr InvalidArgument ''invalid status transition''), [Call_GetOrder ''o-1''])
   \<and> OrderService_UpdateOrderStatus (example_env no_faults) mock_repo ''o-1''
         ORDER_STATUS_PROCESSING
       = (Inr (example_pb_order\<lparr>pb_Status := ORDER_STATUS_PROCESSING, pb_UpdatedAt := 100\<rparr>),
          [Call_GetOrder ''o-1'',
           Call_UpdateOrder (example_pb_order\<lparr>pb_Status := ORDER_STATUS_PROCESSING,
                                               pb_UpdatedAt := 100\<rparr>)])"
proof -
  have a: "\<not> isValidStatusTransition ORDER_STATUS_COMPLETED ORDER_STATUS_PROCESSING"
    "\<not> isValidStatusTransition ORDER_STATUS_PENDING ORDER_STATUS_COMPLETED"
    "isValidStatusTransition ORDER_STATUS_PENDING ORDER_STATUS_PROCESSING"
    by (simp_all add: isValidStatusTransition_def transitions_def)
  have b: "map or_status (orders (committed completed_db)) = [ORDER_STATUS_COMPLETED]"
    by (simp add: completed_db_def rows_added_def empty_db_def header_row_def)
  have c: "map_sum (\<lambda>e. e) pb_Status
       (fst (OrderHandler_UpdateOrderStatus (example_env no_faults) ''o-1''
               ORDER_STATUS_PROCESSING completed_db)) = Inr ORDER_STATUS_PROCESSING
     \<and> map or_status (orders (committed (fst (snd
         (OrderHandler_UpdateOrderStatus (example_env no_faults) ''o-1''
               ORDER_STATUS_PROCESSING completed_db))))) = [ORDER_STATUS_PROCESSING]"
    by (simp add: OrderHandler_UpdateOrderStatus_def orderRepository_GetOrder_def
        orderRepository_UpdateOrderStatus_def RowsAffected_def set_status_def Let_def
        QueryRow_def Query_def example_env_def directory_def no_faults_def completed_db_def
        rows_added_def empty_db_def header_row_def payment_row_of_def shipping_row_of_def
        item_row_of_def example_order_def three_items_def convertToProtoOrder_def)
  have d: "OrderService_UpdateOrderStatus (example_env no_faults) mock_repo ''o-2''
         ORDER_STATUS_PROCESSING = (Inl NilPointerPanic, [Call_GetOrder ''o-2''])"
    "OrderService_UpdateOrderStatus (example_env no_faults)
         (mock_repo\<lparr>repo_GetOrder := \<lambda>oid. Inl ''no rows in result set''\<rparr>) ''o-2''
         ORDER_STATUS_PROCESSING
       = (Inl (StatusErr Internal ''failed to get order''), [Call_GetOrder ''o-2''])"
    by (simp_all add: OrderService_UpdateOrderStatus_def mock_repo_def)
  have e: "OrderService_UpdateOrderStatus (example_env no_faults) mock_repo ''o-1''
         ORDER_STATUS_COMPLETED
       = (Inl (StatusErr InvalidArgument ''invalid status transition''), [Call_GetOrder ''o-1''])"
    "OrderService_UpdateOrderStatus (example_env no_faults) mock_repo ''o-1''
         ORDER_STATUS_PROCESSING
       = (Inr (example_pb_order\<lparr>pb_Status := ORDER_STATUS_PROCESSING, pb_UpdatedAt := 100\<rparr>),
          [Call_GetOrder ''o-1'',
           Call_UpdateOrder (example_pb_order\<lparr>pb_Status := ORDER_STATUS_PROCESSING,
                                               pb_UpdatedAt := 100\<rparr>)])"
    using a
    by (simp_all add: OrderService_UpdateOrderStatus_def mock_repo_def example_pb_order_def
        example_env_def Let_def)
  from a(1) b c d e show ?thesis by blast
qed

end
